theory Spec2Isabelle
  imports Complex_Main
begin

section \<open>Data model\<close>

text \<open>
  The portfolio tracker keeps its state in module-level lists of dictionaries.
  A position dictionary has the keys \<open>ticker\<close>, \<open>quantity\<close>, \<open>buy_price\<close>,
  \<open>current_price\<close>, \<open>risk\<close> and, once the metrics have been computed, \<open>status\<close>.
  A transaction dictionary has the keys \<open>date\<close>, \<open>ticker\<close>, \<open>type\<close>, \<open>quantity\<close>
  and \<open>price\<close>; its fields carry the prefix \<open>tx_\<close> here, because a record field name
  can be declared only once.

  The quantities and prices that the user enters are Python floats, modelled as real
  numbers with exact arithmetic: the rounding of each operation, and a \<open>nan\<close> or
  \<open>inf\<close> typed at a prompt, are outside the model. A division is written with its
  check for a zero divisor, which raises in Python. The volatility, which the program
  computes itself and which can be \<open>nan\<close>, has a type of its own below.
\<close>

datatype error =
    ZeroDivisionError
  | IndexError
  | TypeError
  | ValueError
  | InvalidToken
  | JSONDecodeError

record position =
  ticker :: string
  quantity :: real
  buy_price :: real
  current_price :: real
  risk :: string
  status :: "string option"

record transaction =
  tx_date :: string
  tx_ticker :: string
  tx_type :: string
  tx_quantity :: real
  tx_price :: real

type_synonym dict = "(string \<times> string) list"

section \<open>The ledger: lines 313 to 348 of \<open>make_transaction\<close>\<close>

text \<open>
  The search loop \<open>for asset in portfolio: if asset["ticker"] == ticker: ... break\<close>
  yields a reference to the first dictionary with the ticker; the reference is the index
  of that dictionary in the list.
\<close>

fun find_asset :: "string \<Rightarrow> position list \<Rightarrow> nat option" where
  "find_asset tk [] = None"
| "find_asset tk (a # as) =
     (if ticker a = tk then Some 0
      else (case find_asset tk as of None \<Rightarrow> None | Some i \<Rightarrow> Some (Suc i)))"

definition new_asset :: "transaction \<Rightarrow> position" where
  "new_asset t =
     \<lparr>ticker = tx_ticker t, quantity = tx_quantity t, buy_price = tx_price t,
      current_price = tx_price t, risk = ''OPTIMAL'', status = None\<rparr>"

text \<open>
  \<open>update_portfolio\<close> is the block that follows \<open>transactions.append(new_trans)\<close>.
  \<open>total_cost / total_qty\<close> raises \<open>ZeroDivisionError\<close> when the two quantities
  cancel. \<open>portfolio.remove(existing_asset)\<close> deletes the first element equal to the
  dictionary that was just updated in place.
\<close>

definition update_portfolio :: "transaction \<Rightarrow> position list \<Rightarrow> error + position list" where
  "update_portfolio t ps =
     (case find_asset (tx_ticker t) ps of
        Some i \<Rightarrow>
          (let existing_asset = ps ! i in
           if tx_type t = ''buy'' then
             (let total_qty = quantity existing_asset + tx_quantity t;
                  total_cost = quantity existing_asset * buy_price existing_asset
                               + tx_quantity t * tx_price t
              in if total_qty = 0 then Inl ZeroDivisionError
                 else Inr (ps[i := existing_asset\<lparr>buy_price := total_cost / total_qty,
                                                 quantity := total_qty\<rparr>]))
           else if tx_type t = ''sell'' then
             (let sold = existing_asset\<lparr>quantity := quantity existing_asset - tx_quantity t\<rparr>;
                  ps' = ps[i := sold]
              in if quantity sold \<le> 0 then Inr (remove1 sold ps') else Inr ps')
           else Inr ps)
      | None \<Rightarrow> Inr (ps @ [new_asset t]))"

section \<open>Strings\<close>

text \<open>
  Strings are byte strings here, so \<open>str.upper\<close>, \<open>str.lower\<close> and \<open>str.strip\<close>
  are modelled on ASCII.
\<close>

definition char_upper :: "char \<Rightarrow> char" where
  "char_upper c =
     (let n = (of_char c :: nat) in if 97 \<le> n \<and> n \<le> 122 then char_of (n - 32) else c)"

definition char_lower :: "char \<Rightarrow> char" where
  "char_lower c =
     (let n = (of_char c :: nat) in if 65 \<le> n \<and> n \<le> 90 then char_of (n + 32) else c)"

definition upper :: "string \<Rightarrow> string" where
  "upper s = map char_upper s"

definition lower :: "string \<Rightarrow> string" where
  "lower s = map char_lower s"

definition is_space :: "char \<Rightarrow> bool" where
  "is_space c =
     (let n = (of_char c :: nat) in (9 \<le> n \<and> n \<le> 13) \<or> (28 \<le> n \<and> n \<le> 32))"

definition strip :: "string \<Rightarrow> string" where
  "strip s = rev (dropWhile is_space (rev (dropWhile is_space s)))"

section \<open>\<open>models.py\<close>\<close>

definition TICKER_MAPPING :: "(string \<times> string) list" where
  "TICKER_MAPPING =
     [(''BTC'', ''BTC-USD''), (''ETH'', ''ETH-USD''), (''XRP'', ''XRP-USD''),
      (''LTC'', ''LTC-USD''), (''ADA'', ''ADA-USD''), (''SOL'', ''SOL-USD''),
      (''DOGE'', ''DOGE-USD''), (''SHIB'', ''SHIB-USD'')]"

definition RISK_WEIGHT :: "(string \<times> int) list" where
  "RISK_WEIGHT = [(''LOW'', 1), (''OPTIMAL'', 2), (''HIGH'', 3)]"

definition normalize_ticker :: "string \<Rightarrow> string" where
  "normalize_ticker tk0 =
     (let tk = strip (upper tk0)
      in case map_of TICKER_MAPPING tk of None \<Rightarrow> tk | Some mapped \<Rightarrow> mapped)"

section \<open>\<open>computations.py\<close>\<close>

text \<open>
  The libraries the module calls are parameters: \<open>history\<close> is the market data
  gateway (the daily closes of a ticker over a period of days, \<open>None\<close> when the call
  raises), and \<open>fmt2\<close> is the format \<open>:.2f\<close>.
\<close>

record externals =
  history :: "string \<Rightarrow> nat \<Rightarrow> real list option"
  fmt2 :: "real \<Rightarrow> string"

definition percent_return :: "position \<Rightarrow> real" where
  "percent_return item =
     (if buy_price item = 0 then 0
      else (current_price item - buy_price item) / buy_price item * 100)"

definition market_value :: "position \<Rightarrow> real" where
  "market_value item = quantity item * current_price item"

definition unrealized_pl :: "position \<Rightarrow> real" where
  "unrealized_pl item = (current_price item - buy_price item) * quantity item"

text \<open>
  The volatility is the one number of the program that can be \<open>nan\<close> without any
  \<open>nan\<close> being entered: pandas' \<open>std()\<close> is the sample standard deviation, with
  divisor \<open>n - 1\<close>, and is \<open>nan\<close> for fewer than two values. So the value of
  \<open>volatility\<close> is a float that is a number or \<open>NaN\<close>. A product with \<open>NaN\<close> is
  \<open>NaN\<close>, and every comparison with \<open>NaN\<close> is false.
\<close>

datatype pyfloat = NaN | Num real

fun float_mul :: "pyfloat \<Rightarrow> real \<Rightarrow> pyfloat" where
  "float_mul NaN k = NaN"
| "float_mul (Num v) k = Num (v * k)"

fun float_gt :: "pyfloat \<Rightarrow> real \<Rightarrow> bool" where
  "float_gt NaN c = False"
| "float_gt (Num v) c = (v > c)"

text \<open>
  \<open>data["Close"].pct_change().dropna()\<close>: the relative change from each close to the
  next; the first entry, which has no predecessor, is the one \<open>dropna\<close> removes. The
  closes are prices different from zero.
\<close>

definition pct_change :: "real list \<Rightarrow> real list" where
  "pct_change closes =
     map (\<lambda>(previous, close). close / previous - 1) (zip closes (tl closes))"

definition mean :: "real list \<Rightarrow> real" where
  "mean xs = sum_list xs / real (length xs)"

definition std :: "real list \<Rightarrow> pyfloat" where
  "std xs =
     (if length xs < 2 then NaN
      else Num (sqrt (sum_list (map (\<lambda>x. (x - mean xs)\<^sup>2) xs) / (real (length xs) - 1))))"

definition volatility :: "externals \<Rightarrow> string \<Rightarrow> pyfloat option" where
  "volatility ex tk =
     (case history ex (normalize_ticker tk) 60 of
        None \<Rightarrow> None
      | Some closes \<Rightarrow>
          if length closes < 2 then None
          else
            (let returns = pct_change closes;
                 vol = float_mul (std returns) (sqrt 252)
             in Some vol))"

definition classify_risk :: "externals \<Rightarrow> position \<Rightarrow> string" where
  "classify_risk ex item =
     (case volatility ex (ticker item) of
        None \<Rightarrow> ''UNKNOWN''
      | Some vol \<Rightarrow>
          if float_gt vol 0.45 then ''HIGH''
          else if float_gt vol 0.20 then ''OPTIMAL''
          else ''LOW'')"

definition risk_score :: "externals \<Rightarrow> position \<Rightarrow> int" where
  "risk_score ex item =
     (case map_of RISK_WEIGHT (classify_risk ex item) of None \<Rightarrow> 2 | Some w \<Rightarrow> w)"

text \<open>
  \<open>sorted(xs, key=f, reverse=True)\<close> is stable: elements with equal keys keep the
  order they have in \<open>xs\<close>. A stable ascending sort on the negated key is the same list.
\<close>

definition sorted_reverse :: "('a \<Rightarrow> 'k::{linorder, uminus}) \<Rightarrow> 'a list \<Rightarrow> 'a list" where
  "sorted_reverse key xs = sort_key (\<lambda>x. - key x) xs"

definition assign_status :: "position \<Rightarrow> position" where
  "assign_status asset =
     (if percent_return asset > 0 then asset\<lparr>status := Some ''profit''\<rparr>
      else asset\<lparr>status := Some ''loss''\<rparr>)"

record metrics =
  total_value :: real
  sorted_by_return :: "position list"
  sorted_by_risk :: "position list"
  sorted_by_pnl :: "position list"
  top_3_best :: "position list"
  best_ass :: "string list list"
  worst :: "position option"
  worst_ass :: "string list"
  unrealised_pnl :: "(string \<times> real) list"

definition ass_row :: "externals \<Rightarrow> position \<Rightarrow> string list" where
  "ass_row ex item = [ticker item, fmt2 ex (buy_price item), fmt2 ex (current_price item)]"

text \<open>
  \<open>recalculate_portfolio\<close> returns the metrics dictionary and, as the second
  component, the list it was given after the loop that writes \<open>asset["status"]\<close>.
  The sorted lists hold the same dictionaries as the input list, so the status written
  by that loop is seen through them as well: \<open>assign_status\<close> is mapped over each view.
  The caller always passes the list; the default \<open>preferences=None\<close> is the
  dictionary \<open>{"order": "HtoLrisk"}\<close>.
\<close>

definition recalculate_portfolio ::
  "externals \<Rightarrow> position list \<Rightarrow> dict option \<Rightarrow> metrics \<times> position list" where
  "recalculate_portfolio ex portfolio_list preferences_arg =
     (let prefs = (case preferences_arg of None \<Rightarrow> [(''order'', ''HtoLrisk'')] | Some d \<Rightarrow> d);
          total = sum_list (map market_value portfolio_list);
          by_return = sorted_reverse percent_return portfolio_list;
          by_pnl = sorted_reverse unrealized_pl portfolio_list;
          by_risk = (if map_of prefs ''order'' = Some ''HtoLrisk''
                     then sorted_reverse (risk_score ex) portfolio_list
                     else sort_key (risk_score ex) portfolio_list);
          top3 = (if length by_return \<ge> 3 then take 3 by_return else by_return);
          best = map (ass_row ex) top3;
          worst_item = (if by_return = [] then None else Some (last by_return));
          worst_row = (case worst_item of None \<Rightarrow> [] | Some w \<Rightarrow> ass_row ex w);
          pnl = map (\<lambda>item. (ticker item, unrealized_pl item)) by_pnl
      in (\<lparr>total_value = total,
           sorted_by_return = map assign_status by_return,
           sorted_by_risk = map assign_status by_risk,
           sorted_by_pnl = map assign_status by_pnl,
           top_3_best = map assign_status top3,
           best_ass = best,
           worst = map_option assign_status worst_item,
           worst_ass = worst_row,
           unrealised_pnl = pnl\<rparr>,
          map assign_status portfolio_list))"

section \<open>\<open>portt_main.py\<close>: global state and \<open>make_transaction\<close>\<close>

text \<open>
  The module-level variables. \<open>creds\<close> is another name of \<open>userdata[0]\<close> that
  nothing reads, so the state does not carry it; \<open>preferences\<close> is the dictionary
  bound by \<open>preferences = userdata[1]\<close>, and \<open>portfolio_metrics\<close> is the result of
  the last \<open>recalculate_portfolio\<close>, the empty dictionary at the start.
\<close>

record state =
  portfolio :: "position list"
  transactions :: "transaction list"
  userdata :: "dict list"
  preferences :: dict
  portfolio_metrics :: "metrics option"

definition refresh_portfolio_metrics :: "externals \<Rightarrow> state \<Rightarrow> state" where
  "refresh_portfolio_metrics ex st =
     (case recalculate_portfolio ex (portfolio st) (Some (preferences st)) of
        (m, ps) \<Rightarrow> st\<lparr>portfolio := ps, portfolio_metrics := Some m\<rparr>)"

text \<open>
  \<open>ouinput\<close> returns \<open>None\<close> only for the text \<open>/home\<close>, after it has run
  \<open>home_page()\<close>: \<open>/menu\<close> enters \<open>main_menu\<close>, which does not return, and
  \<open>/exit\<close> ends the process. \<open>home_page\<close> writes \<open>userdata[0]["nick"]\<close> and
  after it \<open>userdata[0]["password"]\<close>, unless one of its own prompts is left by a
  global command first. \<open>home_writes\<close> is what the call, the calls nested in its
  prompts included, has written last; \<open>home_page\<close> applies it to the state. The write
  raises \<open>IndexError\<close> when \<open>userdata\<close> is empty. \<open>dict_set\<close> is the assignment
  \<open>d[k] = v\<close>.
\<close>

datatype home_writes = NoWrite | Nick string | NickPassword string string

fun dict_set :: "string \<Rightarrow> string \<Rightarrow> dict \<Rightarrow> dict" where
  "dict_set k v [] = [(k, v)]"
| "dict_set k v ((k', v') # d) = (if k' = k then (k, v) # d else (k', v') # dict_set k v d)"

definition home_page :: "home_writes \<Rightarrow> state \<Rightarrow> error option \<times> state" where
  "home_page w st =
     (case w of
        NoWrite \<Rightarrow> (None, st)
      | Nick username \<Rightarrow>
          (case userdata st of
             [] \<Rightarrow> (Some IndexError, st)
           | c # rest \<Rightarrow> (None, st\<lparr>userdata := dict_set ''nick'' username c # rest\<rparr>))
      | NickPassword username password \<Rightarrow>
          (case userdata st of
             [] \<Rightarrow> (Some IndexError, st)
           | c # rest \<Rightarrow>
               (None, st\<lparr>userdata :=
                  dict_set ''password'' password (dict_set ''nick'' username c) # rest\<rparr>)))"

text \<open>
  The outcome of a prompt of \<open>make_transaction\<close>: the text or, from \<open>get_float\<close>, the
  number that was entered, or \<open>None\<close> after \<open>/home\<close>, with what the home page wrote.
  The six prompts are asked in the order of the fields.
\<close>

datatype 'a reply = Reply 'a | Home home_writes

record answers =
  ans_date :: "string reply"
  ans_ticker :: "string reply"
  ans_type :: "string reply"
  ans_quantity :: "real reply"
  ans_price :: "real reply"
  ans_confirm :: "string reply"

text \<open>
  Lines 320 to 348: the transaction is appended to the log, then the portfolio is
  updated. The result is the exception raised, if any, and the global state at that
  moment.
\<close>

definition apply_transaction :: "transaction \<Rightarrow> state \<Rightarrow> error option \<times> state" where
  "apply_transaction new_trans st =
     (let st1 = st\<lparr>transactions := transactions st @ [new_trans]\<rparr>
      in (case update_portfolio new_trans (portfolio st1) of
            Inl e \<Rightarrow> (Some e, st1)
          | Inr ps \<Rightarrow> (None, st1\<lparr>portfolio := ps\<rparr>)))"

text \<open>
  The result of \<open>make_transaction\<close> is the value returned, or the exception that
  leaves the function, together with the global state at that moment. \<open>abandoned\<close> is
  a prompt that came back with \<open>None\<close>: the home page has run, and unless it raised,
  \<open>make_transaction\<close> returns \<open>False\<close>.
\<close>

definition abandoned :: "home_writes \<Rightarrow> state \<Rightarrow> (error + bool) \<times> state" where
  "abandoned w st =
     (case home_page w st of
        (Some e, st') \<Rightarrow> (Inl e, st')
      | (None, st') \<Rightarrow> (Inr False, st'))"

definition make_transaction :: "externals \<Rightarrow> answers \<Rightarrow> state \<Rightarrow> (error + bool) \<times> state" where
  "make_transaction ex ans st =
     (case ans_date ans of Home w \<Rightarrow> abandoned w st | Reply date \<Rightarrow>
     (case ans_ticker ans of Home w \<Rightarrow> abandoned w st | Reply tk \<Rightarrow>
     (case ans_type ans of Home w \<Rightarrow> abandoned w st | Reply trans_type \<Rightarrow>
     (case ans_quantity ans of Home w \<Rightarrow> abandoned w st | Reply qty \<Rightarrow>
     (case ans_price ans of Home w \<Rightarrow> abandoned w st | Reply price \<Rightarrow>
     (case ans_confirm ans of Home w \<Rightarrow> abandoned w st | Reply confirm \<Rightarrow>
        if lower confirm \<noteq> ''yes'' then (Inr False, st)
        else
          (let new_trans = \<lparr>tx_date = date, tx_ticker = upper tk, tx_type = lower trans_type,
                            tx_quantity = qty, tx_price = price\<rparr>
           in (case apply_transaction new_trans st of
                 (Some e, st1) \<Rightarrow> (Inl e, st1)
               | (None, st2) \<Rightarrow> (Inr True, refresh_portfolio_metrics ex st2)))))))))"

text \<open>
  Two readings of the answers. \<open>abandoned_writes\<close> is present when a prompt was left
  through \<open>/home\<close>: the writes of the first such prompt, after which no further prompt
  is asked. \<open>confirmed_transaction\<close> is the transaction built at lines 313 to 319:
  present when all six prompts were answered and the confirmation reads \<open>yes\<close>.
\<close>

definition abandoned_writes :: "answers \<Rightarrow> home_writes option" where
  "abandoned_writes ans =
     (case ans_date ans of Home w \<Rightarrow> Some w | Reply date \<Rightarrow>
     (case ans_ticker ans of Home w \<Rightarrow> Some w | Reply tk \<Rightarrow>
     (case ans_type ans of Home w \<Rightarrow> Some w | Reply trans_type \<Rightarrow>
     (case ans_quantity ans of Home w \<Rightarrow> Some w | Reply qty \<Rightarrow>
     (case ans_price ans of Home w \<Rightarrow> Some w | Reply price \<Rightarrow>
     (case ans_confirm ans of Home w \<Rightarrow> Some w | Reply confirm \<Rightarrow> None))))))"

definition confirmed_transaction :: "answers \<Rightarrow> transaction option" where
  "confirmed_transaction ans =
     (case (ans_date ans, ans_ticker ans, ans_type ans, ans_quantity ans, ans_price ans,
            ans_confirm ans) of
        (Reply date, Reply tk, Reply trans_type, Reply qty, Reply price, Reply confirm) \<Rightarrow>
          if lower confirm = ''yes''
          then Some \<lparr>tx_date = date, tx_ticker = upper tk, tx_type = lower trans_type,
                     tx_quantity = qty, tx_price = price\<rparr>
          else None
      | _ \<Rightarrow> None)"

section \<open>\<open>passencrypt.py\<close>: the encrypted state file\<close>

text \<open>
  The Fernet cipher of the \<open>cryptography\<close> package and the \<open>json\<close> module are
  libraries, taken as parameters. \<open>Fernet(key)\<close> raises \<open>ValueError\<close> for a key that
  is not 32 url-safe base64-encoded bytes (\<open>valid_key\<close>); \<open>encrypt\<close> draws a fresh
  initialisation vector and reads the clock, which is its second argument here;
  \<open>decrypt\<close> raises \<open>InvalidToken\<close>, the result \<open>None\<close>, when the token does not
  authenticate under the key. \<open>loads\<close> is \<open>None\<close> when the bytes do not decode.
  The file system is a map from paths to contents; permission bits are not part of it.
\<close>

type_synonym bytes = string

type_synonym files = "string \<Rightarrow> bytes option"

record fernet =
  valid_key :: "bytes \<Rightarrow> bool"
  encrypt :: "bytes \<Rightarrow> bytes \<Rightarrow> bytes \<Rightarrow> bytes"
  decrypt :: "bytes \<Rightarrow> bytes \<Rightarrow> bytes option"

record 'a json_codec =
  dumps :: "'a \<Rightarrow> bytes"
  loads :: "bytes \<Rightarrow> 'a option"

definition ENCRYPTED_STATE :: string where
  "ENCRYPTED_STATE = ''~/.portt_state.enc''"

definition encrypt_state ::
  "fernet \<Rightarrow> 'a json_codec \<Rightarrow> bytes \<Rightarrow> 'a \<Rightarrow> bytes \<Rightarrow> files \<Rightarrow> string \<Rightarrow> error + files" where
  "encrypt_state F J fresh obj key fs filename =
     (if \<not> valid_key F key then Inl ValueError
      else
        (let plaintext = dumps J obj;
             token = encrypt F key fresh plaintext
         in Inr (fs(filename \<mapsto> token))))"

definition decrypt_state ::
  "fernet \<Rightarrow> 'a json_codec \<Rightarrow> bytes \<Rightarrow> files \<Rightarrow> string \<Rightarrow> error + 'a option" where
  "decrypt_state F J key fs filename =
     (case fs filename of
        None \<Rightarrow> Inr None
      | Some token \<Rightarrow>
          if \<not> valid_key F key then Inl ValueError
          else
            (case decrypt F key token of
               None \<Rightarrow> Inl InvalidToken
             | Some plaintext \<Rightarrow>
                 (case loads J plaintext of
                    None \<Rightarrow> Inl JSONDecodeError
                  | Some obj \<Rightarrow> Inr (Some obj))))"

text \<open>
  The public functions \<open>save_state\<close> and \<open>load_state\<close> of the module, under the names
  \<open>portt_main.py\<close> imports them with. \<open>load_state\<close> wraps \<open>decrypt_state\<close> in
  \<open>try: ... except Exception: return None\<close>.
\<close>

definition save_encrypted_state ::
  "fernet \<Rightarrow> 'a json_codec \<Rightarrow> bytes \<Rightarrow> bytes \<Rightarrow> 'a \<Rightarrow> files \<Rightarrow> string \<Rightarrow> error + files" where
  "save_encrypted_state F J MASTER_KEY fresh obj fs filename =
     encrypt_state F J fresh obj MASTER_KEY fs filename"

definition load_encrypted_state ::
  "fernet \<Rightarrow> 'a json_codec \<Rightarrow> bytes \<Rightarrow> files \<Rightarrow> string \<Rightarrow> 'a option" where
  "load_encrypted_state F J MASTER_KEY fs filename =
     (case decrypt_state F J MASTER_KEY fs filename of
        Inl e \<Rightarrow> None
      | Inr loaded \<Rightarrow> loaded)"

section \<open>\<open>portt_main.py\<close>: saving and loading the snapshot\<close>

text \<open>
  The saved object is a dictionary from member names to lists of dictionaries. A member
  is one of the three lists of the global state. Python's slice assignment takes any
  list; the typed state cannot hold a stored member of another shape than the one the
  program saves under that name, and the model stops there with \<open>TypeError\<close>.
  Nothing below depends on that path except as the failure of a load.
\<close>

datatype member =
    Positions "position list"
  | Transactions "transaction list"
  | Userdata "dict list"

type_synonym snapshot = "(string \<times> member) list"

definition snapshot_data :: "state \<Rightarrow> snapshot" where
  "snapshot_data st =
     [(''portfolio'', Positions (portfolio st)),
      (''transactions'', Transactions (transactions st)),
      (''userdata'', Userdata (userdata st))]"

definition save_state :: "snapshot json_codec \<Rightarrow> state \<Rightarrow> files \<Rightarrow> string \<Rightarrow> files" where
  "save_state J st fs filename = fs(filename \<mapsto> dumps J (snapshot_data st))"

text \<open>
  \<open>available\<close> says whether the import of \<open>passencrypt\<close> succeeded. An exception of
  the encrypted save is printed and the file is left as it was.
\<close>

definition save_state_encrypted ::
  "bool \<Rightarrow> fernet \<Rightarrow> snapshot json_codec \<Rightarrow> bytes \<Rightarrow> bytes \<Rightarrow> state \<Rightarrow> files \<Rightarrow> files" where
  "save_state_encrypted available F J MASTER_KEY fresh st fs =
     (if \<not> available then save_state J st fs ''userdata.json''
      else
        (case save_encrypted_state F J MASTER_KEY fresh (snapshot_data st) fs ENCRYPTED_STATE of
           Inl e \<Rightarrow> fs
         | Inr fs' \<Rightarrow> fs'))"

text \<open>
  The three slice assignments \<open>portfolio[:] = data.get("portfolio", portfolio)\<close>,
  \<open>transactions[:] = ...\<close> and \<open>userdata[:] = ...\<close>, one function each.
\<close>

definition assign_portfolio :: "snapshot \<Rightarrow> state \<Rightarrow> error + state" where
  "assign_portfolio data st =
     (case map_of data ''portfolio'' of
        None \<Rightarrow> Inr (st\<lparr>portfolio := portfolio st\<rparr>)
      | Some (Positions ps) \<Rightarrow> Inr (st\<lparr>portfolio := ps\<rparr>)
      | Some other \<Rightarrow> Inl TypeError)"

definition assign_transactions :: "snapshot \<Rightarrow> state \<Rightarrow> error + state" where
  "assign_transactions data st =
     (case map_of data ''transactions'' of
        None \<Rightarrow> Inr (st\<lparr>transactions := transactions st\<rparr>)
      | Some (Transactions ts) \<Rightarrow> Inr (st\<lparr>transactions := ts\<rparr>)
      | Some other \<Rightarrow> Inl TypeError)"

definition assign_userdata :: "snapshot \<Rightarrow> state \<Rightarrow> error + state" where
  "assign_userdata data st =
     (case map_of data ''userdata'' of
        None \<Rightarrow> Inr (st\<lparr>userdata := userdata st\<rparr>)
      | Some (Userdata us) \<Rightarrow> Inr (st\<lparr>userdata := us\<rparr>)
      | Some other \<Rightarrow> Inl TypeError)"

text \<open>
  Lines 75 to 79 of \<open>load_state\<close> and lines 623 to 627 of the main block are the
  same five statements. \<open>creds = userdata[0]\<close> and \<open>preferences = userdata[1]\<close>
  raise \<open>IndexError\<close> on a list that is too short. The result is the exception
  raised, if any, and the state the statements executed so far have left behind.
\<close>

definition merge_loaded :: "snapshot \<Rightarrow> state \<Rightarrow> error option \<times> state" where
  "merge_loaded data st =
     (case assign_portfolio data st of Inl e \<Rightarrow> (Some e, st) | Inr st1 \<Rightarrow>
     (case assign_transactions data st1 of Inl e \<Rightarrow> (Some e, st1) | Inr st2 \<Rightarrow>
     (case assign_userdata data st2 of Inl e \<Rightarrow> (Some e, st2) | Inr st3 \<Rightarrow>
     (case userdata st3 of
        [] \<Rightarrow> (Some IndexError, st3)
      | c # rest \<Rightarrow>
          (case rest of
             [] \<Rightarrow> (Some IndexError, st3)
           | p # others \<Rightarrow> (None, st3\<lparr>preferences := p\<rparr>))))))"

definition load_state ::
  "externals \<Rightarrow> snapshot json_codec \<Rightarrow> files \<Rightarrow> string \<Rightarrow> state \<Rightarrow> error option \<times> state" where
  "load_state ex J fs filename st =
     (case fs filename of
        None \<Rightarrow> (None, st)
      | Some text \<Rightarrow>
          (case loads J text of
             None \<Rightarrow> (Some JSONDecodeError, st)
           | Some data \<Rightarrow>
               (case merge_loaded data st of
                  (Some e, st') \<Rightarrow> (Some e, st')
                | (None, st') \<Rightarrow> (None, refresh_portfolio_metrics ex st'))))"

text \<open>
  The loading part of the main block, lines 617 to 638. \<open>encrypted_load_attempt\<close>
  is the body of the inner \<open>try\<close>: a loaded object that is not empty is merged and
  the metrics are refreshed, otherwise the JSON \<open>load_state\<close> runs. The inner
  handler answers any exception of that body with \<open>load_state\<close>; the outer handler
  prints what is left, so the block always ends with a state.
\<close>

definition encrypted_load_attempt ::
  "externals \<Rightarrow> fernet \<Rightarrow> snapshot json_codec \<Rightarrow> bytes \<Rightarrow> files \<Rightarrow> state
     \<Rightarrow> error option \<times> state" where
  "encrypted_load_attempt ex F J MASTER_KEY fs st =
     (case load_encrypted_state F J MASTER_KEY fs ENCRYPTED_STATE of
        None \<Rightarrow> load_state ex J fs ''userdata.json'' st
      | Some loaded \<Rightarrow>
          if loaded = [] then load_state ex J fs ''userdata.json'' st
          else
            (case merge_loaded loaded st of
               (Some e, st') \<Rightarrow> (Some e, st')
             | (None, st') \<Rightarrow> (None, refresh_portfolio_metrics ex st')))"

definition main_load ::
  "bool \<Rightarrow> externals \<Rightarrow> fernet \<Rightarrow> snapshot json_codec \<Rightarrow> bytes \<Rightarrow> files \<Rightarrow> state \<Rightarrow> state" where
  "main_load available ex F J MASTER_KEY fs st =
     (if available then
        (case encrypted_load_attempt ex F J MASTER_KEY fs st of
           (None, st') \<Rightarrow> st'
         | (Some e, st') \<Rightarrow> snd (load_state ex J fs ''userdata.json'' st'))
      else snd (load_state ex J fs ''userdata.json'' st))"

text \<open>
  The member names of the snapshot as the specification's data model writes them.
\<close>

definition spec_snapshot_members :: "string set" where
  "spec_snapshot_members = {''positions'', ''transactions'', ''preferences''}"

section \<open>Stand-ins for the libraries in closed examples\<close>

text \<open>
  A cipher and a codec small enough to evaluate: keys are four bytes, a token is the key
  followed by the plaintext, and a value is its own encoding.
\<close>

definition demo_fernet :: fernet where
  "demo_fernet =
     \<lparr>valid_key = (\<lambda>k. length k = 4),
      encrypt = (\<lambda>k fresh plaintext. k @ plaintext),
      decrypt = (\<lambda>k token. if take 4 token = k then Some (drop 4 token) else None)\<rparr>"

definition identity_codec :: "string json_codec" where
  "identity_codec = \<lparr>dumps = (\<lambda>s. s), loads = (\<lambda>b. Some b)\<rparr>"

definition no_market :: externals where
  "no_market =
     \<lparr>history = (\<lambda>tk days. None), fmt2 = (\<lambda>x. [])\<rparr>"

definition empty_state :: state where
  "empty_state =
     \<lparr>portfolio = [], transactions = [], userdata = [], preferences = [],
      portfolio_metrics = None\<rparr>"

section \<open>Facts about the ledger\<close>

lemma find_asset_Some:
  "find_asset tk ps = Some i \<Longrightarrow>
     i < length ps \<and> ticker (ps ! i) = tk \<and> (\<forall>j<i. ticker (ps ! j) \<noteq> tk)"
proof (induction ps arbitrary: i)
  case Nil
  then show ?case by simp
next
  case (Cons a as)
  show ?case
  proof (cases "ticker a = tk")
    case True
    with Cons.prems show ?thesis by simp
  next
    case False
    with Cons.prems obtain k where k: "find_asset tk as = Some k" "i = Suc k"
      by (auto split: option.splits)
    from Cons.IH [OF k(1)] have ih:
      "k < length as" "ticker (as ! k) = tk" "\<forall>j<k. ticker (as ! j) \<noteq> tk"
      by simp_all
    show ?thesis
    proof (intro conjI allI impI)
      show "i < length (a # as)" using ih(1) k(2) by simp
      show "ticker ((a # as) ! i) = tk" using ih(2) k(2) by simp
    next
      fix j assume "j < i"
      then show "ticker ((a # as) ! j) \<noteq> tk"
        using False ih(3) k(2) by (cases j) auto
    qed
  qed
qed

lemma find_asset_None:
  "find_asset tk ps = None \<longleftrightarrow> (\<forall>p \<in> set ps. ticker p \<noteq> tk)"
  by (induction ps) (auto split: option.splits)


lemma remove1_updated_first:
  "i < length ps \<Longrightarrow> \<forall>j<i. ticker (ps ! j) \<noteq> ticker a \<Longrightarrow>
     remove1 a (ps[i := a]) = take i ps @ drop (Suc i) ps"
proof (induction ps arbitrary: i)
  case Nil
  then show ?case by simp
next
  case (Cons p ps)
  show ?case
  proof (cases i)
    case 0
    then show ?thesis by simp
  next
    case (Suc k)
    from Cons.prems(2) Suc have "ticker p \<noteq> ticker a" by auto
    then have ne: "a \<noteq> p" by auto
    from Cons.prems Suc have k: "k < length ps" "\<forall>j<k. ticker (ps ! j) \<noteq> ticker a"
      by auto
    from Cons.IH [OF k] ne Suc show ?thesis by simp
  qed
qed

lemmas string_eval =
  upper_def lower_def char_upper_def char_lower_def char_of_def bit_Suc_0_iff

lemma refresh_portfolio:
  "portfolio (refresh_portfolio_metrics ex st) = map assign_status (portfolio st)"
  by (simp add: refresh_portfolio_metrics_def recalculate_portfolio_def Let_def)

lemma refresh_transactions:
  "transactions (refresh_portfolio_metrics ex st) = transactions st"
  by (simp add: refresh_portfolio_metrics_def recalculate_portfolio_def Let_def)

lemma apply_transaction_log:
  "transactions (snd (apply_transaction t st)) = transactions st @ [t]"
  by (simp add: apply_transaction_def Let_def split: sum.splits)

lemma update_portfolio_positive:
  assumes inv: "\<forall>p \<in> set ps. 0 < quantity p"
    and q: "0 < tx_quantity t"
    and res: "update_portfolio t ps = Inr ps'"
  shows "\<forall>p \<in> set ps'. 0 < quantity p"
proof (cases "find_asset (tx_ticker t) ps")
  case None
  with res have "ps' = ps @ [new_asset t]" by (simp add: update_portfolio_def)
  with inv q show ?thesis by (auto simp: new_asset_def)
next
  case (Some i)
  from find_asset_Some [OF Some]
  have i: "i < length ps" and first: "\<forall>j<i. ticker (ps ! j) \<noteq> ticker (ps ! i)"
    by simp_all
  from i inv have qi: "0 < quantity (ps ! i)" by simp
  consider (buy) "tx_type t = ''buy''" | (sell) "tx_type t = ''sell''"
    | (other) "tx_type t \<noteq> ''buy''" "tx_type t \<noteq> ''sell''" by blast
  then show ?thesis
  proof cases
    case buy
    let ?a = "(ps ! i)\<lparr>buy_price := (quantity (ps ! i) * buy_price (ps ! i)
                 + tx_quantity t * tx_price t) / (quantity (ps ! i) + tx_quantity t),
               quantity := quantity (ps ! i) + tx_quantity t\<rparr>"
    from buy Some res qi q have "ps' = ps[i := ?a]"
      by (simp add: update_portfolio_def Let_def split: if_splits)
    moreover have "0 < quantity ?a" using qi q by simp
    ultimately show ?thesis using inv set_update_subset_insert [of ps i ?a] by auto
  next
    case sell
    let ?sold = "(ps ! i)\<lparr>quantity := quantity (ps ! i) - tx_quantity t\<rparr>"
    have "\<forall>j<i. ticker (ps ! j) \<noteq> ticker ?sold" using first by simp
    from remove1_updated_first [OF i this]
    have rm: "remove1 ?sold (ps[i := ?sold]) = take i ps @ drop (Suc i) ps" .
    show ?thesis
    proof (cases "quantity ?sold \<le> 0")
      case True
      with sell Some res rm have "ps' = take i ps @ drop (Suc i) ps"
        by (simp add: update_portfolio_def Let_def)
      then have "set ps' \<subseteq> set ps"
        using set_take_subset [of i ps] set_drop_subset [of "Suc i" ps] by auto
      with inv show ?thesis by auto
    next
      case False
      with sell Some res have "ps' = ps[i := ?sold]"
        by (simp add: update_portfolio_def Let_def)
      moreover have "0 < quantity ?sold" using False by simp
      ultimately show ?thesis using inv set_update_subset_insert [of ps i ?sold] by auto
    qed
  next
    case other
    with Some res have "ps' = ps" by (simp add: update_portfolio_def Let_def)
    with inv show ?thesis by simp
  qed
qed

lemma apply_transaction_positive:
  assumes "\<forall>p \<in> set (portfolio st). 0 < quantity p" and "0 < tx_quantity t"
  shows "\<forall>p \<in> set (portfolio (snd (apply_transaction t st))). 0 < quantity p"
proof (cases "update_portfolio t (portfolio st)")
  case (Inl e)
  with assms show ?thesis by (simp add: apply_transaction_def Let_def)
next
  case (Inr ps')
  from update_portfolio_positive [OF assms Inr] Inr show ?thesis
    by (simp add: apply_transaction_def Let_def)
qed

lemma make_transaction_cases:
  "make_transaction ex ans st =
     (case abandoned_writes ans of
        Some w \<Rightarrow> abandoned w st
      | None \<Rightarrow>
          (case confirmed_transaction ans of
             None \<Rightarrow> (Inr False, st)
           | Some t \<Rightarrow>
               (case apply_transaction t st of
                  (Some e, st1) \<Rightarrow> (Inl e, st1)
                | (None, st2) \<Rightarrow> (Inr True, refresh_portfolio_metrics ex st2))))"
  by (cases "ans_date ans"; cases "ans_ticker ans"; cases "ans_type ans";
      cases "ans_quantity ans"; cases "ans_price ans"; cases "ans_confirm ans";
      simp add: make_transaction_def abandoned_writes_def confirmed_transaction_def)

lemma confirmed_not_abandoned:
  "confirmed_transaction ans = Some t \<Longrightarrow> abandoned_writes ans = None"
  by (cases "ans_date ans"; cases "ans_ticker ans"; cases "ans_type ans";
      cases "ans_quantity ans"; cases "ans_price ans"; cases "ans_confirm ans";
      simp add: abandoned_writes_def confirmed_transaction_def)

lemma confirmed_transaction_quantity:
  "confirmed_transaction ans = Some t \<Longrightarrow> ans_quantity ans = Reply (tx_quantity t)"
  by (cases "ans_date ans"; cases "ans_ticker ans"; cases "ans_type ans";
      cases "ans_quantity ans"; cases "ans_price ans"; cases "ans_confirm ans";
      auto simp: confirmed_transaction_def split: if_splits)

lemma home_page_result:
  "fst (home_page w st) = (if w \<noteq> NoWrite \<and> userdata st = [] then Some IndexError else None)"
proof (cases w)
  case NoWrite
  then show ?thesis by (simp add: home_page_def)
next
  case (Nick n)
  then show ?thesis by (cases "userdata st") (simp_all add: home_page_def)
next
  case (NickPassword n p)
  then show ?thesis by (cases "userdata st") (simp_all add: home_page_def)
qed

lemma home_page_frame:
  "portfolio (snd (home_page w st)) = portfolio st \<and>
   transactions (snd (home_page w st)) = transactions st \<and>
   preferences (snd (home_page w st)) = preferences st \<and>
   portfolio_metrics (snd (home_page w st)) = portfolio_metrics st"
proof (cases w)
  case NoWrite
  then show ?thesis by (simp add: home_page_def)
next
  case (Nick n)
  then show ?thesis by (cases "userdata st") (simp_all add: home_page_def)
next
  case (NickPassword n p)
  then show ?thesis by (cases "userdata st") (simp_all add: home_page_def)
qed

lemma abandoned_result:
  "fst (abandoned w st) =
     (if w \<noteq> NoWrite \<and> userdata st = [] then Inl IndexError else Inr False) \<and>
   snd (abandoned w st) = snd (home_page w st)"
proof -
  obtain r st' where h: "home_page w st = (r, st')" by (cases "home_page w st")
  with home_page_result [of w st]
  have r: "r = (if w \<noteq> NoWrite \<and> userdata st = [] then Some IndexError else None)" by simp
  show ?thesis
  proof (cases r)
    case None
    with r h show ?thesis by (simp add: abandoned_def split: if_splits)
  next
    case (Some e)
    with r h show ?thesis by (simp add: abandoned_def split: if_splits)
  qed
qed

lemma apply_transaction_result:
  "fst (apply_transaction t st) =
     (if tx_type t = ''buy'' \<and>
         (\<exists>i. find_asset (tx_ticker t) (portfolio st) = Some i \<and>
              quantity (portfolio st ! i) + tx_quantity t = 0)
      then Some ZeroDivisionError else None)"
proof (cases "find_asset (tx_ticker t) (portfolio st)")
  case None
  then show ?thesis by (simp add: apply_transaction_def update_portfolio_def)
next
  case (Some i)
  show ?thesis
  proof (cases "tx_type t = ''buy''")
    case True
    with Some show ?thesis
      by (simp add: apply_transaction_def update_portfolio_def Let_def)
  next
    case False
    with Some show ?thesis
      by (simp add: apply_transaction_def update_portfolio_def Let_def)
  qed
qed

lemma apply_transaction_raised:
  "fst (apply_transaction t st) = Some e \<Longrightarrow>
     portfolio (snd (apply_transaction t st)) = portfolio st"
  by (cases "update_portfolio t (portfolio st)") (simp_all add: apply_transaction_def Let_def)

section \<open>Facts about the risk classifier\<close>

lemma classify_risk_cases:
  "(classify_risk ex item = ''HIGH'' \<longleftrightarrow>
      (\<exists>v. volatility ex (ticker item) = Some (Num v) \<and> v > 0.45)) \<and>
   (classify_risk ex item = ''OPTIMAL'' \<longleftrightarrow>
      (\<exists>v. volatility ex (ticker item) = Some (Num v) \<and> 0.20 < v \<and> v \<le> 0.45)) \<and>
   (classify_risk ex item = ''LOW'' \<longleftrightarrow>
      (\<exists>v. volatility ex (ticker item) = Some (Num v) \<and> v \<le> 0.20) \<or>
      volatility ex (ticker item) = Some NaN) \<and>
   (classify_risk ex item = ''UNKNOWN'' \<longleftrightarrow> volatility ex (ticker item) = None)"
proof (cases "volatility ex (ticker item)")
  case None
  then show ?thesis by (simp add: classify_risk_def)
next
  case (Some f)
  then show ?thesis by (cases f) (simp_all add: classify_risk_def)
qed

lemma volatility_cases:
  "(volatility ex tk = None \<longleftrightarrow>
      history ex (normalize_ticker tk) 60 = None \<or>
      (\<exists>closes. history ex (normalize_ticker tk) 60 = Some closes \<and> length closes < 2)) \<and>
   (volatility ex tk = Some NaN \<longleftrightarrow>
      (\<exists>closes. history ex (normalize_ticker tk) 60 = Some closes \<and> length closes = 2))"
proof (cases "history ex (normalize_ticker tk) 60")
  case None
  then show ?thesis by (simp add: volatility_def)
next
  case (Some closes)
  have len: "length (pct_change closes) = length closes - 1"
    by (simp add: pct_change_def)
  show ?thesis
  proof (cases "length closes < 2")
    case True
    with Some show ?thesis by (simp add: volatility_def)
  next
    case False
    show ?thesis
    proof (cases "length closes = 2")
      case True
      with Some len show ?thesis by (simp add: volatility_def std_def Let_def)
    next
      case ne: False
      with False have "\<not> length (pct_change closes) < 2" using len by simp
      with Some False ne show ?thesis by (simp add: volatility_def std_def Let_def)
    qed
  qed
qed

section \<open>Facts about loading\<close>

lemma assign_portfolio_Inr:
  "assign_portfolio d s = Inr s' \<Longrightarrow>
     s' = s\<lparr>portfolio :=
            (case map_of d ''portfolio'' of Some (Positions ps) \<Rightarrow> ps | _ \<Rightarrow> portfolio s)\<rparr>"
  by (auto simp: assign_portfolio_def split: option.splits member.splits)

lemma assign_transactions_Inr:
  "assign_transactions d s = Inr s' \<Longrightarrow>
     s' = s\<lparr>transactions :=
            (case map_of d ''transactions'' of Some (Transactions ts) \<Rightarrow> ts
             | _ \<Rightarrow> transactions s)\<rparr>"
  by (auto simp: assign_transactions_def split: option.splits member.splits)

lemma assign_userdata_Inr:
  "assign_userdata d s = Inr s' \<Longrightarrow>
     s' = s\<lparr>userdata :=
            (case map_of d ''userdata'' of Some (Userdata us) \<Rightarrow> us | _ \<Rightarrow> userdata s)\<rparr>"
  by (auto simp: assign_userdata_def split: option.splits member.splits)

lemma merge_loaded_cases:
  obtains (portfolio_error) e where
      "assign_portfolio d s = Inl e" "merge_loaded d s = (Some e, s)"
  | (transactions_error) e s1 where
      "assign_portfolio d s = Inr s1" "assign_transactions d s1 = Inl e"
      "merge_loaded d s = (Some e, s1)"
  | (userdata_error) e s1 s2 where
      "assign_portfolio d s = Inr s1" "assign_transactions d s1 = Inr s2"
      "assign_userdata d s2 = Inl e" "merge_loaded d s = (Some e, s2)"
  | (index_error) s1 s2 s3 where
      "assign_portfolio d s = Inr s1" "assign_transactions d s1 = Inr s2"
      "assign_userdata d s2 = Inr s3" "length (userdata s3) < 2"
      "fst (merge_loaded d s) = Some IndexError"
      "portfolio (snd (merge_loaded d s)) = portfolio s3"
      "transactions (snd (merge_loaded d s)) = transactions s3"
      "userdata (snd (merge_loaded d s)) = userdata s3"
  | (merged) s1 s2 s3 c p rest where
      "assign_portfolio d s = Inr s1" "assign_transactions d s1 = Inr s2"
      "assign_userdata d s2 = Inr s3" "userdata s3 = c # p # rest"
      "merge_loaded d s = (None, s3\<lparr>preferences := p\<rparr>)"
proof (cases "assign_portfolio d s")
  case (Inl e)
  then show ?thesis using portfolio_error by (simp add: merge_loaded_def)
next
  case p: (Inr s1)
  show ?thesis
  proof (cases "assign_transactions d s1")
    case (Inl e)
    with p show ?thesis using transactions_error by (simp add: merge_loaded_def)
  next
    case t: (Inr s2)
    show ?thesis
    proof (cases "assign_userdata d s2")
      case (Inl e)
      with p t show ?thesis using userdata_error by (simp add: merge_loaded_def)
    next
      case u: (Inr s3)
      show ?thesis
      proof (cases "userdata s3")
        case Nil
        with p t u show ?thesis using index_error [of s1 s2 s3]
          by (simp add: merge_loaded_def)
      next
        case (Cons c rest)
        show ?thesis
        proof (cases rest)
          case Nil
          with Cons p t u show ?thesis using index_error [of s1 s2 s3]
            by (simp add: merge_loaded_def)
        next
          case (Cons q others)
          with \<open>userdata s3 = c # rest\<close> p t u show ?thesis using merged [of s1 s2 s3 c q others]
            by (simp add: merge_loaded_def)
        qed
      qed
    qed
  qed
qed

lemma merge_loaded_fields:
  "portfolio (snd (merge_loaded d s)) =
     (case assign_portfolio d s of Inl e \<Rightarrow> portfolio s | Inr s1 \<Rightarrow> portfolio s1)"
  "transactions (snd (merge_loaded d s)) =
     (case assign_portfolio d s of Inl e \<Rightarrow> transactions s
      | Inr s1 \<Rightarrow> (case assign_transactions d s1 of Inl e \<Rightarrow> transactions s
                   | Inr s2 \<Rightarrow> transactions s2))"
  "userdata (snd (merge_loaded d s)) =
     (case assign_portfolio d s of Inl e \<Rightarrow> userdata s
      | Inr s1 \<Rightarrow> (case assign_transactions d s1 of Inl e \<Rightarrow> userdata s
                   | Inr s2 \<Rightarrow> (case assign_userdata d s2 of Inl e \<Rightarrow> userdata s
                                | Inr s3 \<Rightarrow> userdata s3)))"
proof -
  show "portfolio (snd (merge_loaded d s)) =
     (case assign_portfolio d s of Inl e \<Rightarrow> portfolio s | Inr s1 \<Rightarrow> portfolio s1)"
  proof (cases d s rule: merge_loaded_cases)
    case (transactions_error e s1)
    then show ?thesis by simp
  next
    case (userdata_error e s1 s2)
    from assign_transactions_Inr [OF userdata_error(2)] userdata_error show ?thesis by simp
  next
    case (index_error s1 s2 s3)
    from assign_transactions_Inr [OF index_error(2)] assign_userdata_Inr [OF index_error(3)]
      index_error show ?thesis by simp
  next
    case (merged s1 s2 s3 c p rest)
    from assign_transactions_Inr [OF merged(2)] assign_userdata_Inr [OF merged(3)]
      merged(1,5) show ?thesis by simp
  qed simp
  show "transactions (snd (merge_loaded d s)) =
     (case assign_portfolio d s of Inl e \<Rightarrow> transactions s
      | Inr s1 \<Rightarrow> (case assign_transactions d s1 of Inl e \<Rightarrow> transactions s
                   | Inr s2 \<Rightarrow> transactions s2))"
  proof (cases d s rule: merge_loaded_cases)
    case (transactions_error e s1)
    from assign_portfolio_Inr [OF transactions_error(1)] transactions_error
    show ?thesis by simp
  next
    case (userdata_error e s1 s2)
    then show ?thesis by simp
  next
    case (index_error s1 s2 s3)
    from assign_userdata_Inr [OF index_error(3)] index_error show ?thesis by simp
  next
    case (merged s1 s2 s3 c p rest)
    from assign_userdata_Inr [OF merged(3)] merged(1,2,5) show ?thesis by simp
  qed simp
  show "userdata (snd (merge_loaded d s)) =
     (case assign_portfolio d s of Inl e \<Rightarrow> userdata s
      | Inr s1 \<Rightarrow> (case assign_transactions d s1 of Inl e \<Rightarrow> userdata s
                   | Inr s2 \<Rightarrow> (case assign_userdata d s2 of Inl e \<Rightarrow> userdata s
                                | Inr s3 \<Rightarrow> userdata s3)))"
  proof (cases d s rule: merge_loaded_cases)
    case (transactions_error e s1)
    from assign_portfolio_Inr [OF transactions_error(1)] transactions_error
    show ?thesis by simp
  next
    case (userdata_error e s1 s2)
    from assign_portfolio_Inr [OF userdata_error(1)]
      assign_transactions_Inr [OF userdata_error(2)] userdata_error
    show ?thesis by simp
  next
    case (index_error s1 s2 s3)
    then show ?thesis by simp
  next
    case (merged s1 s2 s3 c p rest)
    then show ?thesis by simp
  qed simp
qed

lemma merge_loaded_portfolio:
  "map_of d ''portfolio'' = None \<Longrightarrow> portfolio (snd (merge_loaded d s)) = portfolio s"
  by (simp add: merge_loaded_fields(1) assign_portfolio_def)

lemma merge_loaded_transactions:
  assumes "map_of d ''transactions'' = None"
  shows "transactions (snd (merge_loaded d s)) = transactions s"
proof (cases "assign_portfolio d s")
  case (Inl e)
  then show ?thesis by (simp add: merge_loaded_fields(2))
next
  case (Inr s1)
  from assign_portfolio_Inr [OF Inr] have "transactions s1 = transactions s" by simp
  with Inr assms show ?thesis
    by (simp add: merge_loaded_fields(2) assign_transactions_def)
qed

lemma merge_loaded_userdata:
  assumes "map_of d ''userdata'' = None"
  shows "userdata (snd (merge_loaded d s)) = userdata s"
proof (cases "assign_portfolio d s")
  case (Inl e)
  then show ?thesis by (simp add: merge_loaded_fields(3))
next
  case p: (Inr s1)
  from assign_portfolio_Inr [OF p] have u1: "userdata s1 = userdata s" by simp
  show ?thesis
  proof (cases "assign_transactions d s1")
    case (Inl e)
    with p show ?thesis by (simp add: merge_loaded_fields(3))
  next
    case t: (Inr s2)
    from assign_transactions_Inr [OF t] have "userdata s2 = userdata s1" by simp
    with u1 p t assms show ?thesis
      by (simp add: merge_loaded_fields(3) assign_userdata_def)
  qed
qed

lemma merge_loaded_success:
  assumes "fst (merge_loaded d s) = None"
  shows "portfolio (snd (merge_loaded d s)) =
        (case map_of d ''portfolio'' of Some (Positions ps) \<Rightarrow> ps | _ \<Rightarrow> portfolio s) \<and>
      transactions (snd (merge_loaded d s)) =
        (case map_of d ''transactions'' of Some (Transactions ts) \<Rightarrow> ts
         | _ \<Rightarrow> transactions s) \<and>
      userdata (snd (merge_loaded d s)) =
        (case map_of d ''userdata'' of Some (Userdata us) \<Rightarrow> us | _ \<Rightarrow> userdata s)"
proof (cases d s rule: merge_loaded_cases)
  case (merged s1 s2 s3 c p rest)
  from assign_portfolio_Inr [OF merged(1)]
  have s1: "portfolio s1 =
        (case map_of d ''portfolio'' of Some (Positions ps) \<Rightarrow> ps | _ \<Rightarrow> portfolio s)"
      "transactions s1 = transactions s" "userdata s1 = userdata s"
    by simp_all
  from assign_transactions_Inr [OF merged(2)]
  have s2: "transactions s2 =
        (case map_of d ''transactions'' of Some (Transactions ts) \<Rightarrow> ts
         | _ \<Rightarrow> transactions s1)"
      "portfolio s2 = portfolio s1" "userdata s2 = userdata s1"
    by simp_all
  from assign_userdata_Inr [OF merged(3)]
  have s3: "userdata s3 =
        (case map_of d ''userdata'' of Some (Userdata us) \<Rightarrow> us | _ \<Rightarrow> userdata s2)"
      "portfolio s3 = portfolio s2" "transactions s3 = transactions s2"
    by simp_all
  have "portfolio (snd (merge_loaded d s)) = portfolio s3"
       "transactions (snd (merge_loaded d s)) = transactions s3"
       "userdata (snd (merge_loaded d s)) = userdata s3"
    using merged(5) by simp_all
  with s1 s2 s3 show ?thesis
    by (simp split: option.splits member.splits)
qed (use assms in simp_all)

section \<open>Claims\<close>

text \<open>
  C2. A buy on a ticker that is already held: the first position with that ticker gets
  the quantity \<open>old + bought\<close> and the average price
  \<open>(old quantity * old average + bought quantity * price) / new quantity\<close>; its
  current price, ticker, risk and status stay, and so does every other position. The
  new quantity is the divisor, so it must not be zero; it is positive whenever the held
  quantity is not negative and the bought quantity is positive, as the data model has
  them.
\<close>

theorem buy_existing_weighted_average:
  assumes "tx_type t = ''buy''"
    and "find_asset (tx_ticker t) ps = Some i"
    and "quantity (ps ! i) + tx_quantity t \<noteq> 0"
  shows "\<exists>ps'. update_portfolio t ps = Inr ps' \<and> length ps' = length ps \<and>
           quantity (ps' ! i) = quantity (ps ! i) + tx_quantity t \<and>
           buy_price (ps' ! i) =
             (quantity (ps ! i) * buy_price (ps ! i) + tx_quantity t * tx_price t)
               / (quantity (ps ! i) + tx_quantity t) \<and>
           current_price (ps' ! i) = current_price (ps ! i) \<and>
           ticker (ps' ! i) = ticker (ps ! i) \<and>
           risk (ps' ! i) = risk (ps ! i) \<and>
           status (ps' ! i) = status (ps ! i) \<and>
           (\<forall>j<length ps. j \<noteq> i \<longrightarrow> ps' ! j = ps ! j)"
proof -
  from find_asset_Some [OF assms(2)] have "i < length ps" by simp
  then show ?thesis using assms by (simp add: update_portfolio_def Let_def)
qed

text \<open>
  The scenario of the specification: ten AAPL bought at 150, five more at 160.
\<close>

theorem buy_existing_weighted_average_witness:
  "\<exists>ps'. update_portfolio
            \<lparr>tx_date = ''2025-03-01'', tx_ticker = ''AAPL'', tx_type = ''buy'',
             tx_quantity = 5, tx_price = 160\<rparr>
            [\<lparr>ticker = ''AAPL'', quantity = 10, buy_price = 150, current_price = 170,
              risk = ''high'', status = None\<rparr>] = Inr ps' \<and>
          quantity (ps' ! 0) = 15 \<and> buy_price (ps' ! 0) = 2300 / 15 \<and>
          current_price (ps' ! 0) = 170"
  using buy_existing_weighted_average
    [of "\<lparr>tx_date = ''2025-03-01'', tx_ticker = ''AAPL'', tx_type = ''buy'',
             tx_quantity = 5, tx_price = 160\<rparr>"
        "[\<lparr>ticker = ''AAPL'', quantity = 10, buy_price = 150, current_price = 170,
              risk = ''high'', status = None\<rparr>]" 0]
  by simp blast

text \<open>
  C3. A sell on a ticker that is already held, at the first position with that ticker:
  when less than the held quantity is sold, the quantity goes down by the amount sold
  and nothing else changes; when exactly the held quantity is sold, that position is
  taken out of the list and the others keep their order.
\<close>

theorem sell_existing_position:
  assumes "tx_type t = ''sell''"
    and "find_asset (tx_ticker t) ps = Some i"
  shows "(tx_quantity t < quantity (ps ! i) \<longrightarrow>
           (\<exists>ps'. update_portfolio t ps = Inr ps' \<and> length ps' = length ps \<and>
              quantity (ps' ! i) = quantity (ps ! i) - tx_quantity t \<and>
              buy_price (ps' ! i) = buy_price (ps ! i) \<and>
              current_price (ps' ! i) = current_price (ps ! i) \<and>
              ticker (ps' ! i) = ticker (ps ! i) \<and>
              risk (ps' ! i) = risk (ps ! i) \<and>
              status (ps' ! i) = status (ps ! i) \<and>
              (\<forall>j<length ps. j \<noteq> i \<longrightarrow> ps' ! j = ps ! j))) \<and>
         (tx_quantity t = quantity (ps ! i) \<longrightarrow>
            update_portfolio t ps = Inr (take i ps @ drop (Suc i) ps))"
proof -
  from find_asset_Some [OF assms(2)]
  have i: "i < length ps" and first: "\<forall>j<i. ticker (ps ! j) \<noteq> ticker (ps ! i)"
    by simp_all
  have ty: "tx_type t \<noteq> ''buy''" using assms(1) by simp
  let ?sold = "(ps ! i)\<lparr>quantity := quantity (ps ! i) - tx_quantity t\<rparr>"
  have "ticker ?sold = ticker (ps ! i)" by simp
  with first have "\<forall>j<i. ticker (ps ! j) \<noteq> ticker ?sold" by simp
  from remove1_updated_first [OF i this]
  have rm: "remove1 ?sold (ps[i := ?sold]) = take i ps @ drop (Suc i) ps" .
  show ?thesis
  proof (intro conjI impI)
    assume "tx_quantity t < quantity (ps ! i)"
    then show "\<exists>ps'. update_portfolio t ps = Inr ps' \<and> length ps' = length ps \<and>
              quantity (ps' ! i) = quantity (ps ! i) - tx_quantity t \<and>
              buy_price (ps' ! i) = buy_price (ps ! i) \<and>
              current_price (ps' ! i) = current_price (ps ! i) \<and>
              ticker (ps' ! i) = ticker (ps ! i) \<and>
              risk (ps' ! i) = risk (ps ! i) \<and>
              status (ps' ! i) = status (ps ! i) \<and>
              (\<forall>j<length ps. j \<noteq> i \<longrightarrow> ps' ! j = ps ! j)"
      using i ty assms by (simp add: update_portfolio_def Let_def)
  next
    assume "tx_quantity t = quantity (ps ! i)"
    then show "update_portfolio t ps = Inr (take i ps @ drop (Suc i) ps)"
      using i ty assms rm by (simp add: update_portfolio_def Let_def)
  qed
qed

theorem sell_existing_position_witness:
  "update_portfolio
     \<lparr>tx_date = ''2025-04-01'', tx_ticker = ''TSLA'', tx_type = ''sell'',
      tx_quantity = 3, tx_price = 650\<rparr>
     [\<lparr>ticker = ''AAPL'', quantity = 10, buy_price = 150, current_price = 170,
       risk = ''high'', status = None\<rparr>,
      \<lparr>ticker = ''TSLA'', quantity = 3, buy_price = 700, current_price = 650,
       risk = ''high'', status = None\<rparr>]
   = Inr [\<lparr>ticker = ''AAPL'', quantity = 10, buy_price = 150, current_price = 170,
           risk = ''high'', status = None\<rparr>] \<and>
   (\<exists>ps'. update_portfolio
     \<lparr>tx_date = ''2025-04-01'', tx_ticker = ''AAPL'', tx_type = ''sell'',
      tx_quantity = 4, tx_price = 170\<rparr>
     [\<lparr>ticker = ''AAPL'', quantity = 10, buy_price = 150, current_price = 170,
       risk = ''high'', status = None\<rparr>] = Inr ps' \<and>
     quantity (ps' ! 0) = 6 \<and> buy_price (ps' ! 0) = 150 \<and> current_price (ps' ! 0) = 170)"
  using sell_existing_position
    [of "\<lparr>tx_date = ''2025-04-01'', tx_ticker = ''TSLA'', tx_type = ''sell'',
      tx_quantity = 3, tx_price = 650\<rparr>"
     "[\<lparr>ticker = ''AAPL'', quantity = 10, buy_price = 150, current_price = 170,
       risk = ''high'', status = None\<rparr>,
      \<lparr>ticker = ''TSLA'', quantity = 3, buy_price = 700, current_price = 650,
       risk = ''high'', status = None\<rparr>]" 1]
    sell_existing_position
    [of "\<lparr>tx_date = ''2025-04-01'', tx_ticker = ''AAPL'', tx_type = ''sell'',
      tx_quantity = 4, tx_price = 170\<rparr>"
     "[\<lparr>ticker = ''AAPL'', quantity = 10, buy_price = 150, current_price = 170,
       risk = ''high'', status = None\<rparr>]" 0]
  by simp blast

text \<open>
  C10. A transaction whose type is neither \<open>buy\<close> nor \<open>sell\<close>, at lines 313 to
  348: it is appended to the transaction log; when no position has its ticker, a new
  position is appended, built as for a buy (quantity of the transaction, both prices the
  transaction's price, risk \<open>OPTIMAL\<close>, no status yet); when a position has its
  ticker, the portfolio is left as it is. No exception is raised.
\<close>

theorem other_type_transaction:
  assumes "tx_type t \<noteq> ''buy''" and "tx_type t \<noteq> ''sell''"
  shows "((\<forall>p \<in> set (portfolio st). ticker p \<noteq> tx_ticker t) \<longrightarrow>
            apply_transaction t st =
              (None, st\<lparr>transactions := transactions st @ [t],
                         portfolio := portfolio st @
                           [\<lparr>ticker = tx_ticker t, quantity = tx_quantity t,
                             buy_price = tx_price t, current_price = tx_price t,
                             risk = ''OPTIMAL'', status = None\<rparr>]\<rparr>)) \<and>
         ((\<exists>p \<in> set (portfolio st). ticker p = tx_ticker t) \<longrightarrow>
            apply_transaction t st =
              (None, st\<lparr>transactions := transactions st @ [t]\<rparr>))"
proof (cases "find_asset (tx_ticker t) (portfolio st)")
  case None
  then have "\<forall>p \<in> set (portfolio st). ticker p \<noteq> tx_ticker t"
    by (simp add: find_asset_None)
  with None show ?thesis
    by (auto simp: apply_transaction_def update_portfolio_def new_asset_def Let_def)
next
  case (Some i)
  from find_asset_Some [OF Some] have "\<exists>p \<in> set (portfolio st). ticker p = tx_ticker t"
    by (metis nth_mem)
  with Some assms show ?thesis
    by (auto simp: apply_transaction_def update_portfolio_def Let_def)
qed

theorem other_type_transaction_witness:
  "apply_transaction
     \<lparr>tx_date = ''2025-04-01'', tx_ticker = ''MSFT'', tx_type = ''hold'',
      tx_quantity = 2, tx_price = 400\<rparr> empty_state
   = (None, empty_state
        \<lparr>transactions := [\<lparr>tx_date = ''2025-04-01'', tx_ticker = ''MSFT'', tx_type = ''hold'',
                            tx_quantity = 2, tx_price = 400\<rparr>],
         portfolio := [\<lparr>ticker = ''MSFT'', quantity = 2, buy_price = 400,
                         current_price = 400, risk = ''OPTIMAL'', status = None\<rparr>]\<rparr>) \<and>
   apply_transaction
     \<lparr>tx_date = ''2025-04-01'', tx_ticker = ''MSFT'', tx_type = ''hold'',
      tx_quantity = 2, tx_price = 400\<rparr>
     (empty_state\<lparr>portfolio := [\<lparr>ticker = ''MSFT'', quantity = 7, buy_price = 300,
                         current_price = 410, risk = ''LOW'', status = None\<rparr>]\<rparr>)
   = (None, empty_state
        \<lparr>portfolio := [\<lparr>ticker = ''MSFT'', quantity = 7, buy_price = 300,
                         current_price = 410, risk = ''LOW'', status = None\<rparr>],
         transactions := [\<lparr>tx_date = ''2025-04-01'', tx_ticker = ''MSFT'', tx_type = ''hold'',
                            tx_quantity = 2, tx_price = 400\<rparr>]\<rparr>)"
  using other_type_transaction
    [of "\<lparr>tx_date = ''2025-04-01'', tx_ticker = ''MSFT'', tx_type = ''hold'',
      tx_quantity = 2, tx_price = 400\<rparr>" empty_state]
    other_type_transaction
    [of "\<lparr>tx_date = ''2025-04-01'', tx_ticker = ''MSFT'', tx_type = ''hold'',
      tx_quantity = 2, tx_price = 400\<rparr>"
      "empty_state\<lparr>portfolio := [\<lparr>ticker = ''MSFT'', quantity = 7, buy_price = 300,
                         current_price = 410, risk = ''LOW'', status = None\<rparr>]\<rparr>"]
  by (simp add: empty_state_def)

text \<open>
  C1, as the code has it. \<open>make_transaction\<close> has no validation step, and three
  things can happen. A prompt is left through \<open>/home\<close>: the positions and the log
  stay as they are, the state is the one the home page left, which may have rewritten
  the nickname and the password in \<open>userdata[0]\<close>, and the call returns \<open>False\<close>
  (the home page raises \<open>IndexError\<close> instead when it has to write into an empty
  \<open>userdata\<close>). The confirmation is not \<open>yes\<close>: the call returns \<open>False\<close> and
  the whole state is as before. The transaction is confirmed: it is appended to the log,
  whatever its quantity, price or ticker, and the call returns \<open>True\<close>, except exactly
  when it is a buy on a held ticker that brings the held quantity to zero; then the
  division raises \<open>ZeroDivisionError\<close> after the append and the positions are as
  before.
\<close>

theorem discard_only_unconfirmed:
  "(\<forall>w. abandoned_writes ans = Some w \<longrightarrow>
      fst (make_transaction ex ans st) =
        (if w \<noteq> NoWrite \<and> userdata st = [] then Inl IndexError else Inr False) \<and>
      snd (make_transaction ex ans st) = snd (home_page w st) \<and>
      portfolio (snd (make_transaction ex ans st)) = portfolio st \<and>
      transactions (snd (make_transaction ex ans st)) = transactions st) \<and>
   (abandoned_writes ans = None \<and> confirmed_transaction ans = None \<longrightarrow>
      make_transaction ex ans st = (Inr False, st)) \<and>
   (\<forall>t. confirmed_transaction ans = Some t \<longrightarrow>
      transactions (snd (make_transaction ex ans st)) = transactions st @ [t] \<and>
      (if tx_type t = ''buy'' \<and>
          (\<exists>i. find_asset (tx_ticker t) (portfolio st) = Some i \<and>
               quantity (portfolio st ! i) + tx_quantity t = 0)
       then fst (make_transaction ex ans st) = Inl ZeroDivisionError \<and>
            portfolio (snd (make_transaction ex ans st)) = portfolio st
       else fst (make_transaction ex ans st) = Inr True))"
proof (intro conjI allI impI)
  fix w assume w: "abandoned_writes ans = Some w"
  then have m: "make_transaction ex ans st = abandoned w st"
    by (simp add: make_transaction_cases)
  show "fst (make_transaction ex ans st) =
        (if w \<noteq> NoWrite \<and> userdata st = [] then Inl IndexError else Inr False)"
    unfolding m by (simp add: abandoned_result)
  show "snd (make_transaction ex ans st) = snd (home_page w st)"
    unfolding m by (simp add: abandoned_result)
  show "portfolio (snd (make_transaction ex ans st)) = portfolio st"
    unfolding m by (simp add: abandoned_result home_page_frame)
  show "transactions (snd (make_transaction ex ans st)) = transactions st"
    unfolding m by (simp add: abandoned_result home_page_frame)
next
  assume "abandoned_writes ans = None \<and> confirmed_transaction ans = None"
  then show "make_transaction ex ans st = (Inr False, st)"
    by (simp add: make_transaction_cases)
next
  fix t assume c: "confirmed_transaction ans = Some t"
  from confirmed_not_abandoned [OF c] have n: "abandoned_writes ans = None" .
  obtain r st' where a: "apply_transaction t st = (r, st')" by (cases "apply_transaction t st")
  have log: "transactions st' = transactions st @ [t]"
    using apply_transaction_log [of t st] a by simp
  have r: "r = (if tx_type t = ''buy'' \<and>
         (\<exists>i. find_asset (tx_ticker t) (portfolio st) = Some i \<and>
              quantity (portfolio st ! i) + tx_quantity t = 0)
      then Some ZeroDivisionError else None)"
    using apply_transaction_result [of t st] a by simp
  show "transactions (snd (make_transaction ex ans st)) = transactions st @ [t]"
    using c n a log by (cases r) (simp_all add: make_transaction_cases refresh_transactions)
  show "if tx_type t = ''buy'' \<and>
          (\<exists>i. find_asset (tx_ticker t) (portfolio st) = Some i \<and>
               quantity (portfolio st ! i) + tx_quantity t = 0)
       then fst (make_transaction ex ans st) = Inl ZeroDivisionError \<and>
            portfolio (snd (make_transaction ex ans st)) = portfolio st
       else fst (make_transaction ex ans st) = Inr True"
  proof (cases r)
    case None
    with r have "\<not> (tx_type t = ''buy'' \<and>
          (\<exists>i. find_asset (tx_ticker t) (portfolio st) = Some i \<and>
               quantity (portfolio st ! i) + tx_quantity t = 0))"
      by (simp split: if_splits)
    moreover from None c n a have "fst (make_transaction ex ans st) = Inr True"
      by (simp add: make_transaction_cases)
    ultimately show ?thesis by simp
  next
    case (Some e)
    with r have z: "tx_type t = ''buy'' \<and>
          (\<exists>i. find_asset (tx_ticker t) (portfolio st) = Some i \<and>
               quantity (portfolio st ! i) + tx_quantity t = 0)"
      and e: "e = ZeroDivisionError"
      by (simp_all split: if_splits)
    from Some a have "fst (apply_transaction t st) = Some e" by simp
    from apply_transaction_raised [OF this] a have "portfolio st' = portfolio st" by simp
    with Some e c n a have "fst (make_transaction ex ans st) = Inl ZeroDivisionError \<and>
            portfolio (snd (make_transaction ex ans st)) = portfolio st"
      by (simp add: make_transaction_cases)
    with z show ?thesis by simp
  qed
qed

theorem discard_only_unconfirmed_witness:
  "make_transaction no_market
     \<lparr>ans_date = Reply ''2025-04-01'', ans_ticker = Home (Nick ''bob''),
      ans_type = Reply ''sell'', ans_quantity = Reply 1, ans_price = Reply 5,
      ans_confirm = Reply ''yes''\<rparr>
     (empty_state\<lparr>userdata := [[(''nick'', ''x''), (''password'', ''123'')],
                                [(''order'', ''HtoLrisk'')]]\<rparr>)
     = (Inr False,
        empty_state\<lparr>userdata := [[(''nick'', ''bob''), (''password'', ''123'')],
                                   [(''order'', ''HtoLrisk'')]]\<rparr>) \<and>
   make_transaction no_market
     \<lparr>ans_date = Reply ''2025-04-01'', ans_ticker = Reply ''tsla'',
      ans_type = Reply ''sell'', ans_quantity = Reply 1, ans_price = Reply 5,
      ans_confirm = Reply ''no''\<rparr> empty_state
     = (Inr False, empty_state) \<and>
   fst (make_transaction no_market
     \<lparr>ans_date = Reply ''2025-04-01'', ans_ticker = Reply ''tsla'',
      ans_type = Reply ''sell'', ans_quantity = Reply (- 1), ans_price = Reply (- 5),
      ans_confirm = Reply ''YES''\<rparr> empty_state) = Inr True \<and>
   transactions (snd (make_transaction no_market
     \<lparr>ans_date = Reply ''2025-04-01'', ans_ticker = Reply ''tsla'',
      ans_type = Reply ''sell'', ans_quantity = Reply (- 1), ans_price = Reply (- 5),
      ans_confirm = Reply ''YES''\<rparr> empty_state))
     = [\<lparr>tx_date = ''2025-04-01'', tx_ticker = ''TSLA'', tx_type = ''sell'',
         tx_quantity = - 1, tx_price = - 5\<rparr>] \<and>
   fst (make_transaction no_market
     \<lparr>ans_date = Reply ''2025-04-02'', ans_ticker = Reply ''AAPL'',
      ans_type = Reply ''buy'', ans_quantity = Reply (- 10), ans_price = Reply 170,
      ans_confirm = Reply ''yes''\<rparr>
     (empty_state\<lparr>portfolio :=
        [\<lparr>ticker = ''AAPL'', quantity = 10, buy_price = 150, current_price = 170,
          risk = ''high'', status = None\<rparr>]\<rparr>)) = Inl ZeroDivisionError \<and>
   transactions (snd (make_transaction no_market
     \<lparr>ans_date = Reply ''2025-04-02'', ans_ticker = Reply ''AAPL'',
      ans_type = Reply ''buy'', ans_quantity = Reply (- 10), ans_price = Reply 170,
      ans_confirm = Reply ''yes''\<rparr>
     (empty_state\<lparr>portfolio :=
        [\<lparr>ticker = ''AAPL'', quantity = 10, buy_price = 150, current_price = 170,
          risk = ''high'', status = None\<rparr>]\<rparr>)))
     = [\<lparr>tx_date = ''2025-04-02'', tx_ticker = ''AAPL'', tx_type = ''buy'',
         tx_quantity = - 10, tx_price = 170\<rparr>]"
proof -
  let ?home = "\<lparr>ans_date = Reply ''2025-04-01'', ans_ticker = Home (Nick ''bob''),
      ans_type = Reply ''sell'', ans_quantity = Reply 1, ans_price = Reply 5,
      ans_confirm = Reply ''yes''\<rparr>"
  let ?named = "empty_state\<lparr>userdata := [[(''nick'', ''x''), (''password'', ''123'')],
                                [(''order'', ''HtoLrisk'')]]\<rparr>"
  let ?declined = "\<lparr>ans_date = Reply ''2025-04-01'', ans_ticker = Reply ''tsla'',
      ans_type = Reply ''sell'', ans_quantity = Reply 1, ans_price = Reply 5,
      ans_confirm = Reply ''no''\<rparr>"
  let ?invalid = "\<lparr>ans_date = Reply ''2025-04-01'', ans_ticker = Reply ''tsla'',
      ans_type = Reply ''sell'', ans_quantity = Reply (- 1), ans_price = Reply (- 5),
      ans_confirm = Reply ''YES''\<rparr>"
  let ?cancel = "\<lparr>ans_date = Reply ''2025-04-02'', ans_ticker = Reply ''AAPL'',
      ans_type = Reply ''buy'', ans_quantity = Reply (- 10), ans_price = Reply 170,
      ans_confirm = Reply ''yes''\<rparr>"
  let ?held = "empty_state\<lparr>portfolio :=
        [\<lparr>ticker = ''AAPL'', quantity = 10, buy_price = 150, current_price = 170,
          risk = ''high'', status = None\<rparr>]\<rparr>"
  have home: "abandoned_writes ?home = Some (Nick ''bob'')"
    by (simp add: abandoned_writes_def)
  from discard_only_unconfirmed [of ?home no_market ?named] home
  have "fst (make_transaction no_market ?home ?named) = Inr False"
    and "snd (make_transaction no_market ?home ?named) = snd (home_page (Nick ''bob'') ?named)"
    by (simp_all add: empty_state_def)
  then have a: "make_transaction no_market ?home ?named
     = (Inr False,
        empty_state\<lparr>userdata := [[(''nick'', ''bob''), (''password'', ''123'')],
                                   [(''order'', ''HtoLrisk'')]]\<rparr>)"
    by (simp add: prod_eq_iff home_page_def empty_state_def)
  have declined: "abandoned_writes ?declined = None" "confirmed_transaction ?declined = None"
    by (simp_all add: abandoned_writes_def confirmed_transaction_def string_eval)
  from discard_only_unconfirmed [of ?declined no_market empty_state] declined
  have b: "make_transaction no_market ?declined empty_state = (Inr False, empty_state)"
    by simp
  have invalid: "confirmed_transaction ?invalid =
      Some \<lparr>tx_date = ''2025-04-01'', tx_ticker = ''TSLA'', tx_type = ''sell'',
         tx_quantity = - 1, tx_price = - 5\<rparr>"
    by (simp add: confirmed_transaction_def string_eval)
  from discard_only_unconfirmed [of ?invalid no_market empty_state] invalid
  have c: "fst (make_transaction no_market ?invalid empty_state) = Inr True"
     "transactions (snd (make_transaction no_market ?invalid empty_state))
       = [\<lparr>tx_date = ''2025-04-01'', tx_ticker = ''TSLA'', tx_type = ''sell'',
         tx_quantity = - 1, tx_price = - 5\<rparr>]"
    by (simp_all add: empty_state_def)
  have cancel: "confirmed_transaction ?cancel =
      Some \<lparr>tx_date = ''2025-04-02'', tx_ticker = ''AAPL'', tx_type = ''buy'',
         tx_quantity = - 10, tx_price = 170\<rparr>"
    by (simp add: confirmed_transaction_def string_eval)
  from discard_only_unconfirmed [of ?cancel no_market ?held] cancel
  have d: "fst (make_transaction no_market ?cancel ?held) = Inl ZeroDivisionError"
     "transactions (snd (make_transaction no_market ?cancel ?held))
       = [\<lparr>tx_date = ''2025-04-02'', tx_ticker = ''AAPL'', tx_type = ''buy'',
         tx_quantity = - 10, tx_price = 170\<rparr>]"
    by (simp_all add: empty_state_def)
  from a b c d show ?thesis by simp
qed

text \<open>
  C1 as stated fails: a sell of a ticker that is not held, a sell of more than is held,
  and a buy of quantity zero at a negative price are all accepted. Each returns
  \<open>True\<close> and enters the log; the first creates a position, the second removes one.
\<close>

theorem invalid_transactions_accepted:
  "fst (make_transaction no_market
     \<lparr>ans_date = Reply ''2025-04-01'', ans_ticker = Reply ''TSLA'', ans_type = Reply ''sell'',
      ans_quantity = Reply 1, ans_price = Reply 5, ans_confirm = Reply ''yes''\<rparr> empty_state)
     = Inr True \<and>
   transactions (snd (make_transaction no_market
     \<lparr>ans_date = Reply ''2025-04-01'', ans_ticker = Reply ''TSLA'', ans_type = Reply ''sell'',
      ans_quantity = Reply 1, ans_price = Reply 5, ans_confirm = Reply ''yes''\<rparr> empty_state))
     = [\<lparr>tx_date = ''2025-04-01'', tx_ticker = ''TSLA'', tx_type = ''sell'',
         tx_quantity = 1, tx_price = 5\<rparr>] \<and>
   portfolio (snd (make_transaction no_market
     \<lparr>ans_date = Reply ''2025-04-01'', ans_ticker = Reply ''TSLA'', ans_type = Reply ''sell'',
      ans_quantity = Reply 1, ans_price = Reply 5, ans_confirm = Reply ''yes''\<rparr> empty_state))
     = [\<lparr>ticker = ''TSLA'', quantity = 1, buy_price = 5, current_price = 5,
         risk = ''OPTIMAL'', status = Some ''loss''\<rparr>] \<and>
   make_transaction no_market
     \<lparr>ans_date = Reply ''2025-04-02'', ans_ticker = Reply ''AAPL'', ans_type = Reply ''sell'',
      ans_quantity = Reply 15, ans_price = Reply 170, ans_confirm = Reply ''yes''\<rparr>
     (empty_state\<lparr>portfolio :=
        [\<lparr>ticker = ''AAPL'', quantity = 10, buy_price = 150, current_price = 170,
          risk = ''high'', status = Some ''profit''\<rparr>]\<rparr>)
     = (Inr True, refresh_portfolio_metrics no_market (empty_state
         \<lparr>transactions := [\<lparr>tx_date = ''2025-04-02'', tx_ticker = ''AAPL'',
                             tx_type = ''sell'', tx_quantity = 15, tx_price = 170\<rparr>]\<rparr>)) \<and>
   fst (make_transaction no_market
     \<lparr>ans_date = Reply ''2025-04-03'', ans_ticker = Reply ''MSFT'', ans_type = Reply ''buy'',
      ans_quantity = Reply 0, ans_price = Reply (- 3), ans_confirm = Reply ''yes''\<rparr> empty_state)
     = Inr True \<and>
   transactions (snd (make_transaction no_market
     \<lparr>ans_date = Reply ''2025-04-03'', ans_ticker = Reply ''MSFT'', ans_type = Reply ''buy'',
      ans_quantity = Reply 0, ans_price = Reply (- 3), ans_confirm = Reply ''yes''\<rparr> empty_state))
     = [\<lparr>tx_date = ''2025-04-03'', tx_ticker = ''MSFT'', tx_type = ''buy'',
         tx_quantity = 0, tx_price = - 3\<rparr>]"
  by (simp add: make_transaction_def string_eval apply_transaction_def update_portfolio_def
        new_asset_def empty_state_def refresh_portfolio refresh_transactions
        assign_status_def percent_return_def)

text \<open>
  C4, as the code has it. When every position has a positive quantity and the quantity
  entered at the prompt, if any, is positive, every position has a positive quantity
  after \<open>make_transaction\<close>, whatever the call returns or raises.
\<close>

theorem positive_quantity_preserved:
  assumes "\<forall>p \<in> set (portfolio st). 0 < quantity p"
    and "\<forall>q. ans_quantity ans = Reply q \<longrightarrow> 0 < q"
  shows "\<forall>p \<in> set (portfolio (snd (make_transaction ex ans st))). 0 < quantity p"
proof (cases "abandoned_writes ans")
  case (Some w)
  then have "make_transaction ex ans st = abandoned w st"
    by (simp add: make_transaction_cases)
  with assms(1) show ?thesis by (simp add: abandoned_result home_page_frame)
next
  case None
  show ?thesis
  proof (cases "confirmed_transaction ans")
    case declined: None
    with None assms(1) show ?thesis by (simp add: make_transaction_cases)
  next
    case (Some t)
    from confirmed_transaction_quantity [OF Some] assms(2) have q: "0 < tx_quantity t" by simp
    obtain r st' where a: "apply_transaction t st = (r, st')"
      by (cases "apply_transaction t st")
    from apply_transaction_positive [OF assms(1) q] a
    have pos: "\<forall>p \<in> set (portfolio st'). 0 < quantity p" by simp
    have "\<forall>p \<in> set (map assign_status (portfolio st')). 0 < quantity p"
      using pos by (auto simp: assign_status_def)
    with pos None Some a show ?thesis
      by (cases r) (simp_all add: make_transaction_cases refresh_portfolio)
  qed
qed

theorem positive_quantity_preserved_witness:
  "portfolio (snd (make_transaction no_market
     \<lparr>ans_date = Reply ''2025-04-02'', ans_ticker = Reply ''aapl'', ans_type = Reply ''Sell'',
      ans_quantity = Reply 4, ans_price = Reply 170, ans_confirm = Reply ''yes''\<rparr>
     (empty_state\<lparr>portfolio :=
        [\<lparr>ticker = ''AAPL'', quantity = 10, buy_price = 150, current_price = 170,
          risk = ''high'', status = None\<rparr>]\<rparr>))) =
     [\<lparr>ticker = ''AAPL'', quantity = 6, buy_price = 150, current_price = 170,
          risk = ''high'', status = Some ''profit''\<rparr>] \<and>
   0 < quantity (hd (portfolio (snd (make_transaction no_market
     \<lparr>ans_date = Reply ''2025-04-02'', ans_ticker = Reply ''aapl'', ans_type = Reply ''Sell'',
      ans_quantity = Reply 4, ans_price = Reply 170, ans_confirm = Reply ''yes''\<rparr>
     (empty_state\<lparr>portfolio :=
        [\<lparr>ticker = ''AAPL'', quantity = 10, buy_price = 150, current_price = 170,
          risk = ''high'', status = None\<rparr>]\<rparr>)))))"
proof -
  let ?ans = "\<lparr>ans_date = Reply ''2025-04-02'', ans_ticker = Reply ''aapl'',
      ans_type = Reply ''Sell'',
      ans_quantity = Reply 4, ans_price = Reply 170, ans_confirm = Reply ''yes''\<rparr>"
  let ?st = "empty_state\<lparr>portfolio :=
        [\<lparr>ticker = ''AAPL'', quantity = 10, buy_price = 150, current_price = 170,
          risk = ''high'', status = None\<rparr>]\<rparr>"
  have h1: "\<forall>p \<in> set (portfolio ?st). 0 < quantity p" by simp
  have h2: "\<forall>q. ans_quantity ?ans = Reply q \<longrightarrow> 0 < q" by simp
  have v: "portfolio (snd (make_transaction no_market ?ans ?st)) =
     [\<lparr>ticker = ''AAPL'', quantity = 6, buy_price = 150, current_price = 170,
          risk = ''high'', status = Some ''profit''\<rparr>]"
    by (simp add: make_transaction_def string_eval apply_transaction_def update_portfolio_def
        empty_state_def refresh_portfolio assign_status_def percent_return_def)
  from positive_quantity_preserved [OF h1 h2, of no_market] v show ?thesis by simp
qed

text \<open>
  C4 as stated fails: a confirmed buy of quantity zero of a ticker that is not held
  leaves a position of quantity zero in the portfolio.
\<close>

theorem zero_quantity_position_kept:
  "portfolio (snd (make_transaction no_market
     \<lparr>ans_date = Reply ''2025-04-03'', ans_ticker = Reply ''MSFT'', ans_type = Reply ''buy'',
      ans_quantity = Reply 0, ans_price = Reply 400, ans_confirm = Reply ''yes''\<rparr> empty_state))
     = [\<lparr>ticker = ''MSFT'', quantity = 0, buy_price = 400, current_price = 400,
         risk = ''OPTIMAL'', status = Some ''loss''\<rparr>]"
  by (simp add: make_transaction_def string_eval apply_transaction_def update_portfolio_def
        new_asset_def empty_state_def refresh_portfolio assign_status_def percent_return_def)


text \<open>
  C6. Saving under a key and loading under the same key gives the object back; loading
  under any other key ends in an exception, never in an object. The cipher and the
  codec are libraries, so their contracts are hypotheses: \<open>decrypt\<close> undoes
  \<open>encrypt\<close> under the same key, a token does not authenticate under another valid
  key, and \<open>loads\<close> undoes \<open>dumps\<close> on the object saved.
\<close>

theorem encrypt_decrypt_roundtrip:
  assumes inv: "\<forall>n p. decrypt F k (encrypt F k n p) = Some p"
    and auth: "\<forall>k' n p. valid_key F k' \<longrightarrow> k' \<noteq> k \<longrightarrow> decrypt F k' (encrypt F k n p) = None"
    and json: "loads J (dumps J x) = Some x"
    and key: "valid_key F k"
  shows "\<exists>fs'. encrypt_state F J n x k fs filename = Inr fs' \<and>
           decrypt_state F J k fs' filename = Inr (Some x) \<and>
           (\<forall>k'. k' \<noteq> k \<longrightarrow>
              decrypt_state F J k' fs' filename =
                Inl (if valid_key F k' then InvalidToken else ValueError))"
  using assms by (simp add: encrypt_state_def decrypt_state_def Let_def)

theorem encrypt_decrypt_roundtrip_witness:
  "\<exists>fs'. encrypt_state demo_fernet identity_codec ''iv'' ''snapshot'' ''key1'' Map.empty
           ENCRYPTED_STATE = Inr fs' \<and>
         decrypt_state demo_fernet identity_codec ''key1'' fs' ENCRYPTED_STATE
           = Inr (Some ''snapshot'') \<and>
         decrypt_state demo_fernet identity_codec ''key2'' fs' ENCRYPTED_STATE
           = Inl InvalidToken"
proof -
  have inv: "\<forall>n p. decrypt demo_fernet ''key1'' (encrypt demo_fernet ''key1'' n p) = Some p"
    by (simp add: demo_fernet_def)
  have auth: "\<forall>k' n p. valid_key demo_fernet k' \<longrightarrow> k' \<noteq> ''key1'' \<longrightarrow>
                decrypt demo_fernet k' (encrypt demo_fernet ''key1'' n p) = None"
    by (auto simp: demo_fernet_def)
  have json: "loads identity_codec (dumps identity_codec ''snapshot'') = Some ''snapshot''"
    by (simp add: identity_codec_def)
  have key: "valid_key demo_fernet ''key1''" by (simp add: demo_fernet_def)
  have k2: "valid_key demo_fernet ''key2''" "''key2'' \<noteq> ''key1''"
    by (simp_all add: demo_fernet_def)
  from encrypt_decrypt_roundtrip [OF inv auth json key, of "''iv''" Map.empty ENCRYPTED_STATE]
  obtain fs' where fs': "encrypt_state demo_fernet identity_codec ''iv'' ''snapshot'' ''key1''
        Map.empty ENCRYPTED_STATE = Inr fs'"
     "decrypt_state demo_fernet identity_codec ''key1'' fs' ENCRYPTED_STATE = Inr (Some ''snapshot'')"
     "\<forall>k'. k' \<noteq> ''key1'' \<longrightarrow>
              decrypt_state demo_fernet identity_codec k' fs' ENCRYPTED_STATE =
                Inl (if valid_key demo_fernet k' then InvalidToken else ValueError)"
    by blast
  from fs'(3) k2 have "decrypt_state demo_fernet identity_codec ''key2'' fs' ENCRYPTED_STATE
           = Inl InvalidToken" by simp
  with fs'(1,2) show ?thesis by blast
qed

text \<open>
  C5, as the code has it. \<open>decrypt_state\<close> returns \<open>None\<close> when the file does
  not exist and raises \<open>InvalidToken\<close> when the token does not authenticate, so the
  two outcomes differ there. The public \<open>load_state\<close> catches every exception and
  returns \<open>None\<close> in both cases.
\<close>

theorem absent_and_integrity_failure:
  "(fs filename = None \<longrightarrow>
      decrypt_state F J key fs filename = Inr None \<and>
      load_encrypted_state F J key fs filename = None) \<and>
   (\<forall>token. fs filename = Some token \<and> valid_key F key \<and> decrypt F key token = None \<longrightarrow>
      decrypt_state F J key fs filename = Inl InvalidToken \<and>
      decrypt_state F J key fs filename \<noteq> Inr None \<and>
      load_encrypted_state F J key fs filename = None)"
  by (simp add: decrypt_state_def load_encrypted_state_def)

theorem absent_and_integrity_failure_witness:
  "decrypt_state demo_fernet identity_codec ''key1'' Map.empty ENCRYPTED_STATE = Inr None \<and>
   decrypt_state demo_fernet identity_codec ''key1''
     (Map.empty(ENCRYPTED_STATE \<mapsto> ''key2snapshot'')) ENCRYPTED_STATE = Inl InvalidToken"
  using absent_and_integrity_failure
      [of Map.empty ENCRYPTED_STATE demo_fernet identity_codec "''key1''"]
    absent_and_integrity_failure
      [of "Map.empty(ENCRYPTED_STATE \<mapsto> ''key2snapshot'')" ENCRYPTED_STATE demo_fernet
          identity_codec "''key1''"]
  by (simp add: demo_fernet_def)

text \<open>
  C5 as stated fails for the public \<open>load_state\<close>: a file whose token does not
  authenticate under the key and a missing file give its caller the same result.
\<close>

theorem load_state_hides_integrity_failure:
  "decrypt demo_fernet ''key1'' ''key2snapshot'' = None \<and>
   load_encrypted_state demo_fernet identity_codec ''key1''
     (Map.empty(ENCRYPTED_STATE \<mapsto> ''key2snapshot'')) ENCRYPTED_STATE = None \<and>
   load_encrypted_state demo_fernet identity_codec ''key1'' Map.empty ENCRYPTED_STATE = None"
  by (simp add: load_encrypted_state_def decrypt_state_def demo_fernet_def)

text \<open>
  C7, as the code has it. \<open>recalculate_portfolio\<close> writes the \<open>status\<close> key of
  every position it is given: \<open>profit\<close> when the percentage return is positive,
  \<open>loss\<close> otherwise. The list keeps its length and order, and the ticker, quantity,
  buy price, current price and risk of every position stay as they were.
\<close>

theorem recalculate_writes_only_status:
  "length (snd (recalculate_portfolio ex ps prefs)) = length ps \<and>
   map ticker (snd (recalculate_portfolio ex ps prefs)) = map ticker ps \<and>
   map quantity (snd (recalculate_portfolio ex ps prefs)) = map quantity ps \<and>
   map buy_price (snd (recalculate_portfolio ex ps prefs)) = map buy_price ps \<and>
   map current_price (snd (recalculate_portfolio ex ps prefs)) = map current_price ps \<and>
   map risk (snd (recalculate_portfolio ex ps prefs)) = map risk ps \<and>
   map status (snd (recalculate_portfolio ex ps prefs)) =
     map (\<lambda>p. Some (if percent_return p > 0 then ''profit'' else ''loss'')) ps"
  by (simp add: recalculate_portfolio_def Let_def assign_status_def)

text \<open>
  C7 as stated fails: a position without a status comes back with the status
  \<open>profit\<close>.
\<close>

theorem recalculate_changes_status:
  "snd (recalculate_portfolio no_market
     [\<lparr>ticker = ''AAPL'', quantity = 10, buy_price = 150, current_price = 170,
       risk = ''high'', status = None\<rparr>] None)
   = [\<lparr>ticker = ''AAPL'', quantity = 10, buy_price = 150, current_price = 170,
       risk = ''high'', status = Some ''profit''\<rparr>] \<and>
   snd (recalculate_portfolio no_market
     [\<lparr>ticker = ''AAPL'', quantity = 10, buy_price = 150, current_price = 170,
       risk = ''high'', status = None\<rparr>] None)
   \<noteq> [\<lparr>ticker = ''AAPL'', quantity = 10, buy_price = 150, current_price = 170,
       risk = ''high'', status = None\<rparr>]"
  by (simp add: recalculate_portfolio_def Let_def assign_status_def percent_return_def)

text \<open>
  C8 fails on the code for a ticker whose history has exactly two closes. There is one
  return, its standard deviation is \<open>NaN\<close>, \<open>volatility\<close> returns that
  \<open>NaN\<close> instead of \<open>None\<close>, both comparisons in \<open>classify_risk\<close> are
  false, and the \<open>else\<close> branch answers \<open>LOW\<close>: the tier is \<open>LOW\<close> although
  the volatility is not at most 0.20, and it is not \<open>UNKNOWN\<close> although there is no
  usable volatility. With one close the answer is \<open>UNKNOWN\<close>.
\<close>

theorem two_closes_classified_low:
  "volatility (no_market\<lparr>history := (\<lambda>tk days. Some [100, 101])\<rparr>) ''NEWCO'' = Some NaN \<and>
   classify_risk (no_market\<lparr>history := (\<lambda>tk days. Some [100, 101])\<rparr>)
     \<lparr>ticker = ''NEWCO'', quantity = 1, buy_price = 100, current_price = 101,
      risk = ''OPTIMAL'', status = None\<rparr> = ''LOW'' \<and>
   classify_risk (no_market\<lparr>history := (\<lambda>tk days. Some [100])\<rparr>)
     \<lparr>ticker = ''NEWCO'', quantity = 1, buy_price = 100, current_price = 101,
      risk = ''OPTIMAL'', status = None\<rparr> = ''UNKNOWN''"
  by (simp add: classify_risk_def volatility_def pct_change_def std_def no_market_def)

text \<open>
  C9, as the code has it. The saved object has exactly the three members
  \<open>portfolio\<close>, \<open>transactions\<close> and \<open>userdata\<close>, in that order. On load, a
  member that the stored object lacks leaves the list in memory as it was before the
  load, and after a load without exception each list is the stored member when there is
  one and the list in memory otherwise.
\<close>

theorem snapshot_members_and_merge:
  "map fst (snapshot_data st) = [''portfolio'', ''transactions'', ''userdata''] \<and>
   (map_of loaded ''portfolio'' = None \<longrightarrow>
      portfolio (snd (merge_loaded loaded st)) = portfolio st) \<and>
   (map_of loaded ''transactions'' = None \<longrightarrow>
      transactions (snd (merge_loaded loaded st)) = transactions st) \<and>
   (map_of loaded ''userdata'' = None \<longrightarrow>
      userdata (snd (merge_loaded loaded st)) = userdata st) \<and>
   (fst (merge_loaded loaded st) = None \<longrightarrow>
      portfolio (snd (merge_loaded loaded st)) =
        (case map_of loaded ''portfolio'' of Some (Positions ps) \<Rightarrow> ps | _ \<Rightarrow> portfolio st) \<and>
      transactions (snd (merge_loaded loaded st)) =
        (case map_of loaded ''transactions'' of Some (Transactions ts) \<Rightarrow> ts
         | _ \<Rightarrow> transactions st) \<and>
      userdata (snd (merge_loaded loaded st)) =
        (case map_of loaded ''userdata'' of Some (Userdata us) \<Rightarrow> us | _ \<Rightarrow> userdata st))"
proof (intro conjI impI)
  show "map fst (snapshot_data st) = [''portfolio'', ''transactions'', ''userdata'']"
    by (simp add: snapshot_data_def)
qed (simp_all add: merge_loaded_portfolio merge_loaded_transactions merge_loaded_userdata
       merge_loaded_success)

theorem snapshot_members_and_merge_witness:
  "portfolio (snd (merge_loaded
      [(''transactions'', Transactions
          [\<lparr>tx_date = ''2025-03-01'', tx_ticker = ''AAPL'', tx_type = ''buy'',
            tx_quantity = 5, tx_price = 145\<rparr>])]
      (empty_state\<lparr>portfolio :=
          [\<lparr>ticker = ''AAPL'', quantity = 10, buy_price = 150, current_price = 170,
            risk = ''high'', status = None\<rparr>],
         userdata := [[(''nick'', ''x'')], [(''order'', ''HtoLrisk'')]]\<rparr>)))
     = [\<lparr>ticker = ''AAPL'', quantity = 10, buy_price = 150, current_price = 170,
         risk = ''high'', status = None\<rparr>] \<and>
   userdata (snd (merge_loaded
      [(''transactions'', Transactions
          [\<lparr>tx_date = ''2025-03-01'', tx_ticker = ''AAPL'', tx_type = ''buy'',
            tx_quantity = 5, tx_price = 145\<rparr>])]
      (empty_state\<lparr>portfolio :=
          [\<lparr>ticker = ''AAPL'', quantity = 10, buy_price = 150, current_price = 170,
            risk = ''high'', status = None\<rparr>],
         userdata := [[(''nick'', ''x'')], [(''order'', ''HtoLrisk'')]]\<rparr>)))
     = [[(''nick'', ''x'')], [(''order'', ''HtoLrisk'')]] \<and>
   transactions (snd (merge_loaded
      [(''transactions'', Transactions
          [\<lparr>tx_date = ''2025-03-01'', tx_ticker = ''AAPL'', tx_type = ''buy'',
            tx_quantity = 5, tx_price = 145\<rparr>])]
      (empty_state\<lparr>portfolio :=
          [\<lparr>ticker = ''AAPL'', quantity = 10, buy_price = 150, current_price = 170,
            risk = ''high'', status = None\<rparr>],
         userdata := [[(''nick'', ''x'')], [(''order'', ''HtoLrisk'')]]\<rparr>)))
     = [\<lparr>tx_date = ''2025-03-01'', tx_ticker = ''AAPL'', tx_type = ''buy'',
         tx_quantity = 5, tx_price = 145\<rparr>]"
proof -
  let ?loaded = "[(''transactions'', Transactions
          [\<lparr>tx_date = ''2025-03-01'', tx_ticker = ''AAPL'', tx_type = ''buy'',
            tx_quantity = 5, tx_price = 145\<rparr>])]"
  let ?st = "empty_state\<lparr>portfolio :=
          [\<lparr>ticker = ''AAPL'', quantity = 10, buy_price = 150, current_price = 170,
            risk = ''high'', status = None\<rparr>],
         userdata := [[(''nick'', ''x'')], [(''order'', ''HtoLrisk'')]]\<rparr>"
  have absent: "map_of ?loaded ''portfolio'' = None" "map_of ?loaded ''userdata'' = None"
    by simp_all
  have ok: "fst (merge_loaded ?loaded ?st) = None"
    by (simp add: merge_loaded_def assign_portfolio_def assign_transactions_def
          assign_userdata_def empty_state_def)
  from snapshot_members_and_merge [of ?st ?loaded] absent ok show ?thesis
    by (simp add: empty_state_def)
qed

text \<open>
  C9 as stated fails on the names: the data model of the specification calls the members
  \<open>positions\<close>, \<open>transactions\<close> and \<open>preferences\<close>, and the saved object has
  neither \<open>positions\<close> nor \<open>preferences\<close>.
\<close>

theorem snapshot_member_names_differ:
  "map fst (snapshot_data empty_state) = [''portfolio'', ''transactions'', ''userdata''] \<and>
   ''positions'' \<in> spec_snapshot_members \<and>
   ''positions'' \<notin> set (map fst (snapshot_data empty_state)) \<and>
   ''preferences'' \<in> spec_snapshot_members \<and>
   ''preferences'' \<notin> set (map fst (snapshot_data empty_state)) \<and>
   set (map fst (snapshot_data empty_state)) \<noteq> spec_snapshot_members"
proof -
  have names: "map fst (snapshot_data empty_state) = [''portfolio'', ''transactions'', ''userdata'']"
    by (simp add: snapshot_data_def)
  have spec: "''positions'' \<in> spec_snapshot_members" "''preferences'' \<in> spec_snapshot_members"
    by (simp_all add: spec_snapshot_members_def)
  have code: "''positions'' \<notin> set (map fst (snapshot_data empty_state))"
      "''preferences'' \<notin> set (map fst (snapshot_data empty_state))"
    by (simp_all add: names)
  from spec(1) code(1)
  have "set (map fst (snapshot_data empty_state)) \<noteq> spec_snapshot_members" by blast
  with names spec code show ?thesis by blast
qed


end
